theory Spec2Isabelle
  imports Complex_Main "HOL-Library.Word"
begin

unbundle bit_operations_syntax

section \<open>Data model of \<^verbatim>\<open>main.cpp\<close>\<close>

text \<open>
  The program is a single-threaded Win32 widget. Its persistent state is a handful of
  globals: the display buffer \<^verbatim>\<open>g_statsText\<close>, the flag \<^verbatim>\<open>g_gpuDataAvailable\<close>, the three
  CPU baseline counters with the \<^verbatim>\<open>firstCall\<close> flag, and the record \<^verbatim>\<open>g_gpuData\<close>. Every
  function that touches them takes the record of globals and returns it updated. What the
  operating system hands to the program (tick counters, memory status, registry, files, the
  output of the child process) is an explicit input.

  Machine integers are words: \<^verbatim>\<open>unsigned long long\<close> is 64 bits, \<^verbatim>\<open>unsigned int\<close> and
  \<^verbatim>\<open>unsigned long\<close> are 32 bits (the program is built with the Microsoft compiler, see the
  command line at the end of the source). A \<^verbatim>\<open>double\<close> is idealised as an exact rational:
  rounding to 53 bits is not modelled. The GPU quantities are integers below \<open>2 ^ 32\<close>
  divided by 1024, which a double holds exactly.
\<close>

type_synonym ulonglong = "64 word"
type_synonym uint = "32 word"
type_synonym double = rat

record FILETIME =
  dwLowDateTime :: "32 word"
  dwHighDateTime :: "32 word"

text \<open>The three out-parameters of \<^verbatim>\<open>GetSystemTimes\<close>.\<close>

record system_times =
  idleTime :: FILETIME
  kernelTime :: FILETIME
  userTime :: FILETIME

record GpuData =
  name :: string
  driverVersion :: string
  temperature :: uint
  memoryTotal :: double
  memoryUsed :: double
  utilizationGpu :: uint

record globals =
  g_statsText :: string
  g_gpuDataAvailable :: bool
  previousIdleTime :: ulonglong
  previousKernelTime :: ulonglong
  previousUserTime :: ulonglong
  firstCall :: bool
  g_gpuData :: GpuData
  timerSet :: bool

text \<open>
  The globals as the program starts: the initialisers of the source, and zero
  initialisation for \<^verbatim>\<open>g_gpuData\<close>, which has static storage.
\<close>

definition initial_globals :: globals where
  "initial_globals =
     \<lparr> g_statsText = ''Initializing...'',
       g_gpuDataAvailable = False,
       previousIdleTime = 0,
       previousKernelTime = 0,
       previousUserTime = 0,
       firstCall = True,
       g_gpuData = \<lparr> name = [], driverVersion = [], temperature = 0,
                     memoryTotal = 0, memoryUsed = 0, utilizationGpu = 0 \<rparr>,
       timerSet = False \<rparr>"

section \<open>CPU block\<close>

definition FileTimeToInt64 :: "FILETIME \<Rightarrow> ulonglong" where
  "FileTimeToInt64 ft = push_bit 32 (ucast (dwHighDateTime ft)) OR ucast (dwLowDateTime ft)"

text \<open>
  Division by zero is undefined behaviour in C++, so the quotient of two doubles is a
  checked operation and a division by zero is a value of its own.
\<close>

datatype fault = Division_by_zero

definition divide_double :: "double \<Rightarrow> double \<Rightarrow> fault + double" where
  "divide_double a b = (if b = 0 then Inl Division_by_zero else Inr (a / b))"

definition double_of_ull :: "ulonglong \<Rightarrow> double" where
  "double_of_ull w = of_nat (unat w)"

text \<open>
  \<^verbatim>\<open>getCurrentCpuUsage\<close>. The argument is what \<^verbatim>\<open>GetSystemTimes\<close> delivered: \<open>None\<close> when the
  call failed. The subtractions and the sum are on 64-bit words and wrap around.
\<close>

definition getCurrentCpuUsage ::
  "system_times option \<Rightarrow> globals \<Rightarrow> (fault + double) \<times> globals" where
  "getCurrentCpuUsage systimes g =
     (case systimes of
        None \<Rightarrow> (Inr (- 1), g)
      | Some t \<Rightarrow>
          let currentIdleTime = FileTimeToInt64 (idleTime t);
              currentKernelTime = FileTimeToInt64 (kernelTime t);
              currentUserTime = FileTimeToInt64 (userTime t)
          in if firstCall g then
               (Inr 0, g\<lparr> previousIdleTime := currentIdleTime,
                          previousKernelTime := currentKernelTime,
                          previousUserTime := currentUserTime,
                          firstCall := False \<rparr>)
             else
               let idleTimeDelta = currentIdleTime - previousIdleTime g;
                   kernelTimeDelta = currentKernelTime - previousKernelTime g;
                   userTimeDelta = currentUserTime - previousUserTime g;
                   totalActivityTime = kernelTimeDelta + userTimeDelta;
                   g' = g\<lparr> previousIdleTime := currentIdleTime,
                            previousKernelTime := currentKernelTime,
                            previousUserTime := currentUserTime \<rparr>
               in if totalActivityTime = 0 then (Inr 0, g')
                  else
                    (case divide_double (double_of_ull idleTimeDelta)
                            (double_of_ull totalActivityTime) of
                       Inl f \<Rightarrow> (Inl f, g')
                     | Inr q \<Rightarrow> (Inr ((1 - q) * 100), g')))"

text \<open>The deltas of a call, named as in the source, for stating properties.\<close>

definition idleTimeDelta :: "system_times \<Rightarrow> globals \<Rightarrow> ulonglong" where
  "idleTimeDelta t g = FileTimeToInt64 (idleTime t) - previousIdleTime g"

definition kernelTimeDelta :: "system_times \<Rightarrow> globals \<Rightarrow> ulonglong" where
  "kernelTimeDelta t g = FileTimeToInt64 (kernelTime t) - previousKernelTime g"

definition userTimeDelta :: "system_times \<Rightarrow> globals \<Rightarrow> ulonglong" where
  "userTimeDelta t g = FileTimeToInt64 (userTime t) - previousUserTime g"

section \<open>RAM block\<close>

record MEMORYSTATUSEX =
  ullTotalPhys :: ulonglong
  ullAvailPhys :: ulonglong

definition getCurrentRamUsage :: "MEMORYSTATUSEX \<Rightarrow> double" where
  "getCurrentRamUsage memInfo =
     (let totalPhysMem = ullTotalPhys memInfo;
          availPhysMem = ullAvailPhys memInfo;
          usedPhysMem = totalPhysMem - availPhysMem
      in double_of_ull usedPhysMem / (1024 * 1024 * 1024))"

section \<open>GPU block: the structured document\<close>

text \<open>
  Modelled from the spec: the XML library (\<^verbatim>\<open>pugixml.hpp\<close>, with \<^verbatim>\<open>xml_node\<close>, \<^verbatim>\<open>child\<close>,
  \<^verbatim>\<open>text().get()\<close> and \<^verbatim>\<open>load_string\<close>) is not among the sources. The spec describes the
  document as a root element containing a GPU record with named children and text fields,
  where a missing element is tolerated. So a node is an element with a name and children, or
  a piece of text; a node handle may be null (\<open>None\<close>); \<open>child\<close> of a handle is the first
  child element of that name, and null when there is none or the handle is null;
  \<open>text_get\<close> is the first text directly under the node, and empty when there is none. The
  document itself is the unnamed node above the root element. The parser \<^verbatim>\<open>load_string\<close>
  stays a parameter.
\<close>

datatype xml_node_struct = Element string "xml_node_struct list" | PCData string

type_synonym xml_node = "xml_node_struct option"

fun is_element_named :: "string \<Rightarrow> xml_node_struct \<Rightarrow> bool" where
  "is_element_named n (Element nm cs) = (nm = n)"
| "is_element_named n (PCData v) = False"

fun is_text_node :: "xml_node_struct \<Rightarrow> bool" where
  "is_text_node (Element nm cs) = False"
| "is_text_node (PCData v) = True"

fun child :: "xml_node \<Rightarrow> string \<Rightarrow> xml_node" where
  "child None n = None"
| "child (Some (PCData v)) n = None"
| "child (Some (Element nm cs)) n = find (is_element_named n) cs"

fun text_get :: "xml_node \<Rightarrow> string" where
  "text_get None = []"
| "text_get (Some (PCData v)) = v"
| "text_get (Some (Element nm cs)) =
     (case find is_text_node cs of Some (PCData v) \<Rightarrow> v | _ \<Rightarrow> [])"

section \<open>GPU block: exceptions and \<^verbatim>\<open>std::stoul\<close>\<close>

text \<open>
  The exceptions the GPU block can throw. All three derive from \<^verbatim>\<open>std::exception\<close>, the
  type the handler in \<^verbatim>\<open>refreshAllData\<close> catches.
\<close>

datatype exn = runtime_error string | invalid_argument | out_of_range

abbreviation (input) backslash :: char where
  "backslash \<equiv> CHR 0x5C"

abbreviation (input) newline :: char where
  "newline \<equiv> CHR 0x0A"

abbreviation (input) dquote :: char where
  "dquote \<equiv> CHR 0x22"

definition isspace :: "char \<Rightarrow> bool" where
  "isspace c = (c \<in> set [CHR '' '', CHR 0x09, CHR 0x0A, CHR 0x0B, CHR 0x0C, CHR 0x0D])"

definition isdigit :: "char \<Rightarrow> bool" where
  "isdigit c = (c \<in> set ''0123456789'')"

definition digit_value :: "char \<Rightarrow> nat" where
  "digit_value c = of_char c - 48"

text \<open>
  \<^verbatim>\<open>std::stoul(str)\<close> in base 10, as \<^verbatim>\<open>strtoul\<close> reads it: leading white space is skipped,
  one sign is accepted, the longest run of digits is converted and the rest of the string
  is ignored. No digit at all throws \<^verbatim>\<open>std::invalid_argument\<close>; a value above
  \<^verbatim>\<open>ULONG_MAX\<close> (32 bits here) throws \<^verbatim>\<open>std::out_of_range\<close>; a minus sign negates the
  value within the unsigned type.
\<close>

definition stoul :: "string \<Rightarrow> exn + 32 word" where
  "stoul str =
     (let s1 = dropWhile isspace str;
          negative = (case s1 of c # r \<Rightarrow> c = CHR ''-'' | [] \<Rightarrow> False);
          s2 = (case s1 of c # r \<Rightarrow> if c = CHR ''-'' \<or> c = CHR ''+'' then r else s1 | [] \<Rightarrow> s1);
          ds = takeWhile isdigit s2;
          v = foldl (\<lambda>a c. a * 10 + digit_value c) 0 ds
      in if ds = [] then Inl invalid_argument
         else if v > 2 ^ 32 - 1 then Inl out_of_range
         else Inr (if negative then - of_nat v else of_nat v))"

definition double_of_ulong :: "32 word \<Rightarrow> double" where
  "double_of_ulong w = of_nat (unat w)"

section \<open>GPU block: locating and running the tool\<close>

text \<open>
  What the operating system answers during one refresh. \<open>registryPath\<close> is the value
  \<^verbatim>\<open>Path\<close> of the key \<^verbatim>\<open>HKLM\SOFTWARE\NVIDIA Corporation\Global\NVSMI\<close>, \<open>None\<close> when the key
  cannot be opened or the value cannot be read. \<open>CreateProcessA\<close> maps a command line to the
  error code of a failed launch or to everything the child wrote to the pipe.
  \<open>uninitialized\<close> is what the memory of the local \<^verbatim>\<open>GpuData data\<close> in \<^verbatim>\<open>parseGpuData\<close>
  holds before any assignment: the struct has no initialisers, so its four scalar members
  start indeterminate (its two strings are default-constructed, empty).
\<close>

record os_env =
  GetSystemTimes :: "system_times option"
  GlobalMemoryStatusEx :: MEMORYSTATUSEX
  registryPath :: "string option"
  PathFileExistsA :: "string \<Rightarrow> bool"
  GetModuleFileNameA :: string
  envPATH :: "string option"
  CreatePipe :: bool
  CreateProcessA :: "string \<Rightarrow> nat + string"
  load_string :: "string \<Rightarrow> xml_node_struct option"
  uninitialized :: GpuData

text \<open>An unsigned integer written in decimal, as \<^verbatim>\<open>operator<<\<close> writes it.\<close>

definition digit_char :: "nat \<Rightarrow> char" where
  "digit_char d = ''0123456789'' ! d"

fun to_string_nat :: "nat \<Rightarrow> string" where
  "to_string_nat n =
     (if n < 10 then [digit_char n] else to_string_nat (n div 10) @ [digit_char (n mod 10)])"

declare to_string_nat.simps [simp del]

definition exec_no_console :: "os_env \<Rightarrow> string \<Rightarrow> exn + string" where
  "exec_no_console env cmd =
     (if \<not> CreatePipe env then Inl (runtime_error ''CreatePipe failed!'')
      else case CreateProcessA env cmd of
             Inl errorCode \<Rightarrow>
               Inl (runtime_error (''CreateProcess failed with error code: '' @
                      to_string_nat errorCode))
           | Inr result \<Rightarrow> Inr result)"

definition fileExists :: "os_env \<Rightarrow> string \<Rightarrow> bool" where
  "fileExists env path = PathFileExistsA env path"

definition getNVSMIPathFromRegistry :: "os_env \<Rightarrow> string" where
  "getNVSMIPathFromRegistry env =
     (case registryPath env of
        None \<Rightarrow> []
      | Some v \<Rightarrow>
          let path = (if v \<noteq> [] \<and> last v \<noteq> backslash then v @ [backslash] else v);
              path = path @ ''nvidia-smi.exe''
          in if fileExists env path then path else [])"

text \<open>
  \<^verbatim>\<open>std::getline(iss, dir, ';')\<close> called until it fails: the pieces between the delimiters,
  without a last empty piece.
\<close>

fun getline_all :: "char \<Rightarrow> string \<Rightarrow> string \<Rightarrow> string list" where
  "getline_all delim cur [] = (if cur = [] then [] else [cur])"
| "getline_all delim cur (c # cs) =
     (if c = delim then cur # getline_all delim [] cs
      else getline_all delim (cur @ [c]) cs)"

fun findInPath_loop :: "os_env \<Rightarrow> string \<Rightarrow> string list \<Rightarrow> string" where
  "findInPath_loop env exeName [] = []"
| "findInPath_loop env exeName (dir # dirs) =
     (let dir = (if dir \<noteq> [] \<and> last dir \<noteq> backslash then dir @ [backslash] else dir);
          fullPath = dir @ exeName
      in if fileExists env fullPath then fullPath
         else findInPath_loop env exeName dirs)"

definition findInPath :: "os_env \<Rightarrow> string \<Rightarrow> string" where
  "findInPath env exeName =
     (case envPATH env of
        None \<Rightarrow> []
      | Some envPath \<Rightarrow> findInPath_loop env exeName (getline_all (CHR '';'') [] envPath))"

definition commonPaths :: "string list" where
  "commonPaths =
     [''C:'' @ [backslash] @ ''Program Files'' @ [backslash] @ ''NVIDIA Corporation'' @
        [backslash] @ ''NVSMI'' @ [backslash] @ ''nvidia-smi.exe'',
      ''C:'' @ [backslash] @ ''Windows'' @ [backslash] @ ''System32'' @ [backslash] @
        ''nvidia-smi.exe'',
      ''C:'' @ [backslash] @ ''Windows'' @ [backslash] @ ''Sysnative'' @ [backslash] @
        ''nvidia-smi.exe'']"

text \<open>\<^verbatim>\<open>s.find_last_of(cs)\<close>: the last position of \<open>s\<close> holding a character of \<open>cs\<close>.\<close>

definition find_last_of :: "string \<Rightarrow> string \<Rightarrow> nat option" where
  "find_last_of s cs = find (\<lambda>i. s ! i \<in> set cs) (rev [0..<length s])"

definition getNVSMIPath :: "os_env \<Rightarrow> string" where
  "getNVSMIPath env =
     (let path = getNVSMIPathFromRegistry env
      in if path \<noteq> [] then path
         else case find (fileExists env) commonPaths of
           Some p \<Rightarrow> p
         | None \<Rightarrow>
             let exePath = GetModuleFileNameA env;
                 fromPATH = (let path = findInPath env ''nvidia-smi.exe''
                             in if path \<noteq> [] then path else ''nvidia-smi.exe'')
             in (case find_last_of exePath [backslash, CHR ''/''] of
                   None \<Rightarrow> fromPATH
                 | Some pos \<Rightarrow>
                     (let exeDir = take (pos + 1) exePath @ ''nvidia-smi.exe''
                      in if fileExists env exeDir then exeDir else fromPATH)))"

definition getXmlGpuData :: "os_env \<Rightarrow> exn + string" where
  "getXmlGpuData env =
     (let nvsmiExePath = getNVSMIPath env;
          command =
            (if backslash \<in> set nvsmiExePath \<or> CHR '' '' \<in> set nvsmiExePath
             then [dquote] @ nvsmiExePath @ [dquote] @ '' -q -x''
             else nvsmiExePath @ '' -q -x'')
      in exec_no_console env command)"

section \<open>GPU block: \<^verbatim>\<open>parseGpuData\<close>\<close>

text \<open>
  The first argument is the indeterminate content of the local \<^verbatim>\<open>data\<close>; its strings
  start empty. An exception of \<^verbatim>\<open>std::stoul\<close> leaves the function at once.
\<close>

definition parseGpuData :: "GpuData \<Rightarrow> xml_node \<Rightarrow> exn + GpuData" where
  "parseGpuData indeterminate doc =
     (let data = indeterminate\<lparr> name := [], driverVersion := [] \<rparr>;
          gpu_node = child (child doc ''nvidia_smi_log'') ''gpu''
      in if gpu_node = None then Inr data
         else
           let data = data\<lparr> name := text_get (child gpu_node ''product_name''),
                            driverVersion :=
                              text_get (child (child doc ''nvidia_smi_log'') ''driver_version'') \<rparr>;
               temperature_node = child (child gpu_node ''temperature'') ''gpu_temp'';
               memory_node = child gpu_node ''fb_memory_usage'';
               utilization_node = child gpu_node ''utilization''
           in case (if temperature_node \<noteq> None then
                      (case stoul (text_get temperature_node) of
                         Inl e \<Rightarrow> Inl e
                       | Inr v \<Rightarrow> Inr (data\<lparr> temperature := v \<rparr>))
                    else Inr data) of
                Inl e \<Rightarrow> Inl e
              | Inr data \<Rightarrow>
                  (case (if memory_node \<noteq> None then
                           (case stoul (text_get (child memory_node ''total'')) of
                              Inl e \<Rightarrow> Inl e
                            | Inr vTotal \<Rightarrow>
                                (case stoul (text_get (child memory_node ''used'')) of
                                   Inl e \<Rightarrow> Inl e
                                 | Inr vUsed \<Rightarrow>
                                     Inr (data\<lparr> memoryTotal := double_of_ulong vTotal / 1024,
                                                 memoryUsed := double_of_ulong vUsed / 1024 \<rparr>)))
                         else Inr data) of
                     Inl e \<Rightarrow> Inl e
                   | Inr data \<Rightarrow>
                       (if utilization_node \<noteq> None then
                          (case stoul (text_get (child utilization_node ''gpu_util'')) of
                             Inl e \<Rightarrow> Inl e
                           | Inr v \<Rightarrow> Inr (data\<lparr> utilizationGpu := v \<rparr>))
                        else Inr data)))"

section \<open>Window and rendering block\<close>

text \<open>
  \<^verbatim>\<open>std::fixed << std::setprecision(2)\<close> applied to a double: the value rounded to two
  decimals (to nearest, a tie to the even digit), with a minus sign for a negative value.
  It acts on doubles only; an \<^verbatim>\<open>unsigned int\<close> is written in plain decimal.
\<close>

definition round_half_even :: "rat \<Rightarrow> int" where
  "round_half_even x =
     (let f = \<lfloor>x\<rfloor>; d = x - of_int f
      in if d < 1 / 2 then f
         else if 1 / 2 < d then f + 1
         else if even f then f else f + 1)"

definition fixed2 :: "double \<Rightarrow> string" where
  "fixed2 x =
     (let n = nat (round_half_even (\<bar>x\<bar> * 100))
      in (if x < 0 then ''-'' else []) @ to_string_nat (n div 100) @ ''.'' @
         [digit_char (n div 10 mod 10), digit_char (n mod 10)])"

definition to_string_uint :: "uint \<Rightarrow> string" where
  "to_string_uint w = to_string_nat (unat w)"

text \<open>
  \<^verbatim>\<open>refreshAllData\<close> in pieces: the two halves of the text it streams into \<^verbatim>\<open>oss\<close>; its
  \<^verbatim>\<open>try\<close> block together with the handler, which catches every exception of the GPU
  retrieval (all of them are of type \<^verbatim>\<open>std::exception\<close>) and clears the flag; then the
  function. \<^verbatim>\<open>strncpy_s\<close> with \<^verbatim>\<open>_TRUNCATE\<close> keeps the first 1023 characters in the buffer
  of 1024. The redraw request does not touch the globals. A fault of the CPU sampler is not
  caught and leaves the function.
\<close>

definition cpu_ram_text :: "double \<Rightarrow> double \<Rightarrow> string" where
  "cpu_ram_text cpuUsage ramUsage =
     (if cpuUsage \<ge> 0 then
        ''CPU Usage: '' @ fixed2 cpuUsage @ ''%'' @ [newline] @
        ''RAM Usage: '' @ fixed2 ramUsage @ '' GB'' @ [newline]
      else ''Error getting CPU/RAM usage.'' @ [newline])"

definition gpu_text :: "bool \<Rightarrow> GpuData \<Rightarrow> string" where
  "gpu_text available d =
     (if available then
        [newline] @ ''--- GPU Stats ---'' @ [newline] @
        ''GPU: '' @ name d @ [newline] @
        ''Temp: '' @ to_string_uint (temperature d) @ '' C'' @ [newline] @
        ''VRAM: '' @ fixed2 (memoryUsed d) @ '' GB / '' @ fixed2 (memoryTotal d) @ '' GB'' @
          [newline] @
        ''GPU Util: '' @ to_string_uint (utilizationGpu d) @ '' %''
      else
        [newline] @ ''--- GPU Stats ---'' @ [newline] @
        ''GPU data not available or initializing...'')"

definition refreshGpu :: "os_env \<Rightarrow> globals \<Rightarrow> globals" where
  "refreshGpu env g =
     (case getXmlGpuData env of
        Inl e \<Rightarrow> g\<lparr> g_gpuDataAvailable := False \<rparr>
      | Inr xmlOutput \<Rightarrow>
          if xmlOutput \<noteq> [] then
            (case load_string env xmlOutput of
               Some doc \<Rightarrow>
                 (case parseGpuData (uninitialized env) (Some doc) of
                    Inl e \<Rightarrow> g\<lparr> g_gpuDataAvailable := False \<rparr>
                  | Inr d \<Rightarrow> g\<lparr> g_gpuData := d, g_gpuDataAvailable := True \<rparr>)
             | None \<Rightarrow> g\<lparr> g_gpuDataAvailable := False \<rparr>)
          else g\<lparr> g_gpuDataAvailable := False \<rparr>)"

definition refreshAllData :: "os_env \<Rightarrow> globals \<Rightarrow> fault + globals" where
  "refreshAllData env g =
     (case getCurrentCpuUsage (GetSystemTimes env) g of
        (Inl f, g) \<Rightarrow> Inl f
      | (Inr cpuUsage, g) \<Rightarrow>
          let ramUsage = getCurrentRamUsage (GlobalMemoryStatusEx env);
              g = refreshGpu env g;
              oss = cpu_ram_text cpuUsage ramUsage @
                    gpu_text (g_gpuDataAvailable g) (g_gpuData g)
          in Inr (g\<lparr> g_statsText := take 1023 oss \<rparr>))"

text \<open>
  The window procedure on the globals. A message comes with the answers of the operating
  system at the time it is dispatched. Painting reads \<^verbatim>\<open>g_statsText\<close> and changes nothing.
\<close>

datatype message =
  WM_CREATE | WM_ENTERSIZEMOVE | WM_EXITSIZEMOVE | WM_TIMER nat |
  WM_PAINT | WM_CLOSE | WM_DESTROY | WM_OTHER

definition CPU_USAGE_TIMER_ID :: nat where
  "CPU_USAGE_TIMER_ID = 1"

fun WndProc :: "os_env \<Rightarrow> message \<Rightarrow> globals \<Rightarrow> fault + globals" where
  "WndProc env WM_CREATE g =
     (case getCurrentCpuUsage (GetSystemTimes env) (g\<lparr> timerSet := True \<rparr>) of
        (Inl f, g) \<Rightarrow> Inl f
      | (Inr cpuUsage, g) \<Rightarrow> Inr g)"
| "WndProc env WM_ENTERSIZEMOVE g = Inr (g\<lparr> timerSet := False \<rparr>)"
| "WndProc env WM_EXITSIZEMOVE g = refreshAllData env (g\<lparr> timerSet := True \<rparr>)"
| "WndProc env (WM_TIMER wParam) g =
     (if wParam = CPU_USAGE_TIMER_ID then refreshAllData env g else Inr g)"
| "WndProc env WM_PAINT g = Inr g"
| "WndProc env WM_CLOSE g = Inr g"
| "WndProc env WM_DESTROY g = Inr (g\<lparr> timerSet := False \<rparr>)"
| "WndProc env WM_OTHER g = Inr g"

text \<open>The message loop: the messages are dispatched one after the other.\<close>

fun dispatch_all :: "(os_env \<times> message) list \<Rightarrow> globals \<Rightarrow> fault + globals" where
  "dispatch_all [] g = Inr g"
| "dispatch_all ((env, msg) # rest) g =
     (case WndProc env msg g of Inl f \<Rightarrow> Inl f | Inr g' \<Rightarrow> dispatch_all rest g')"

section \<open>Vocabulary of the properties\<close>

text \<open>
  The text of the element that a path of element names reaches from the document node;
  empty when an element of the path is missing.
\<close>

definition field_text :: "xml_node_struct \<Rightarrow> string list \<Rightarrow> string" where
  "field_text doc path = text_get (foldl child (Some doc) path)"

text \<open>
  Tool discovery in the words of the spec: the candidates in priority order (the path
  built from the registry entry, the well-known install paths, the directory of the
  executable, the directories of \<^verbatim>\<open>PATH\<close>), and the first one that exists, with the bare
  name of the executable as the last resort.
\<close>

definition in_directory :: "string \<Rightarrow> string \<Rightarrow> string" where
  "in_directory dir exeName =
     (if dir \<noteq> [] \<and> last dir \<noteq> backslash then dir @ [backslash] else dir) @ exeName"

definition registry_candidates :: "os_env \<Rightarrow> string list" where
  "registry_candidates env =
     (case registryPath env of None \<Rightarrow> [] | Some v \<Rightarrow> [in_directory v ''nvidia-smi.exe''])"

definition exe_directory_candidates :: "os_env \<Rightarrow> string list" where
  "exe_directory_candidates env =
     (case find_last_of (GetModuleFileNameA env) [backslash, CHR ''/''] of
        None \<Rightarrow> []
      | Some pos \<Rightarrow> [take (pos + 1) (GetModuleFileNameA env) @ ''nvidia-smi.exe''])"

definition PATH_candidates :: "os_env \<Rightarrow> string list" where
  "PATH_candidates env =
     (case envPATH env of
        None \<Rightarrow> []
      | Some envPath \<Rightarrow>
          map (\<lambda>dir. in_directory dir ''nvidia-smi.exe'') (getline_all (CHR '';'') [] envPath))"

definition discovery_candidates :: "os_env \<Rightarrow> string list" where
  "discovery_candidates env =
     registry_candidates env @ commonPaths @ exe_directory_candidates env @ PATH_candidates env"

definition first_existing_candidate :: "os_env \<Rightarrow> string" where
  "first_existing_candidate env =
     (case find (fileExists env) (discovery_candidates env) of
        Some p \<Rightarrow> p
      | None \<Rightarrow> ''nvidia-smi.exe'')"

text \<open>
  A number written with two decimal places: at least one character, none of them a
  decimal point, then the point and two digits.
\<close>

fun two_decimals_reversed :: "string \<Rightarrow> bool" where
  "two_decimals_reversed (b # a # p # ip) =
     (isdigit b \<and> isdigit a \<and> p = CHR ''.'' \<and> ip \<noteq> [] \<and> CHR ''.'' \<notin> set ip)"
| "two_decimals_reversed s = False"

definition two_decimals :: "string \<Rightarrow> bool" where
  "two_decimals s = two_decimals_reversed (rev s)"

text \<open>
  The GPU block in the words of the spec, with two decimal places for all numeric fields,
  the temperature and the utilization included.
\<close>

definition gpu_text_all_two_decimals :: "GpuData \<Rightarrow> string" where
  "gpu_text_all_two_decimals d =
     [newline] @ ''--- GPU Stats ---'' @ [newline] @
     ''GPU: '' @ name d @ [newline] @
     ''Temp: '' @ fixed2 (double_of_ulong (temperature d)) @ '' C'' @ [newline] @
     ''VRAM: '' @ fixed2 (memoryUsed d) @ '' GB / '' @ fixed2 (memoryTotal d) @ '' GB'' @
       [newline] @
     ''GPU Util: '' @ fixed2 (double_of_ulong (utilizationGpu d)) @ '' %''"

section \<open>Inputs used in examples\<close>

text \<open>
  A tick count as a \<^verbatim>\<open>FILETIME\<close>, a snapshot of the three counters, and the globals after
  the first call of the CPU sampler with the counters at 100, 200 and 50.
\<close>

definition ticks :: "nat \<Rightarrow> FILETIME" where
  "ticks n = \<lparr> dwLowDateTime = of_nat n, dwHighDateTime = of_nat (n div 2 ^ 32) \<rparr>"

definition snapshot :: "nat \<Rightarrow> nat \<Rightarrow> nat \<Rightarrow> system_times" where
  "snapshot i k u = \<lparr> idleTime = ticks i, kernelTime = ticks k, userTime = ticks u \<rparr>"

definition after_first_call :: globals where
  "after_first_call = snd (getCurrentCpuUsage (Some (snapshot 100 200 50)) initial_globals)"

text \<open>
  Documents as \<^verbatim>\<open>nvidia-smi -q -x\<close> writes them, cut down to the elements the program reads,
  each with the tree the XML parser builds from it: a complete one, one without the GPU
  record, one whose GPU record has a memory record without \<^verbatim>\<open>total\<close>, and one whose GPU
  record has the product name only.
\<close>

definition full_xml :: string where
  "full_xml = ''<nvidia_smi_log><driver_version>551.23</driver_version><gpu><product_name>NVIDIA GeForce RTX 4090</product_name><temperature><gpu_temp>65 C</gpu_temp></temperature><fb_memory_usage><total>24576 MiB</total><used>4096 MiB</used></fb_memory_usage><utilization><gpu_util>12 %</gpu_util></utilization></gpu></nvidia_smi_log>''"

definition full_doc :: xml_node_struct where
  "full_doc = Element [] [Element ''nvidia_smi_log''
     [Element ''driver_version'' [PCData ''551.23''],
      Element ''gpu''
        [Element ''product_name'' [PCData ''NVIDIA GeForce RTX 4090''],
         Element ''temperature'' [Element ''gpu_temp'' [PCData ''65 C'']],
         Element ''fb_memory_usage''
           [Element ''total'' [PCData ''24576 MiB''], Element ''used'' [PCData ''4096 MiB'']],
         Element ''utilization'' [Element ''gpu_util'' [PCData ''12 %'']]]]]"

definition no_gpu_xml :: string where
  "no_gpu_xml = ''<nvidia_smi_log><driver_version>551.23</driver_version></nvidia_smi_log>''"

definition no_gpu_doc :: xml_node_struct where
  "no_gpu_doc = Element [] [Element ''nvidia_smi_log''
     [Element ''driver_version'' [PCData ''551.23'']]]"

definition no_total_doc :: xml_node_struct where
  "no_total_doc = Element [] [Element ''nvidia_smi_log''
     [Element ''driver_version'' [PCData ''551.23''],
      Element ''gpu''
        [Element ''product_name'' [PCData ''NVIDIA GeForce RTX 4090''],
         Element ''fb_memory_usage'' [Element ''used'' [PCData ''4096 MiB'']]]]]"

definition name_only_doc :: xml_node_struct where
  "name_only_doc = Element [] [Element ''nvidia_smi_log''
     [Element ''gpu'' [Element ''product_name'' [PCData ''NVIDIA GeForce RTX 4090'']]]]"

text \<open>
  A document with every element present, where the tool reports the temperature as not
  available.
\<close>

definition not_applicable_xml :: string where
  "not_applicable_xml = ''<nvidia_smi_log><driver_version>551.23</driver_version><gpu><product_name>NVIDIA GeForce RTX 4090</product_name><temperature><gpu_temp>N/A</gpu_temp></temperature><fb_memory_usage><total>24576 MiB</total><used>4096 MiB</used></fb_memory_usage><utilization><gpu_util>12 %</gpu_util></utilization></gpu></nvidia_smi_log>''"

definition not_applicable_doc :: xml_node_struct where
  "not_applicable_doc = Element [] [Element ''nvidia_smi_log''
     [Element ''driver_version'' [PCData ''551.23''],
      Element ''gpu''
        [Element ''product_name'' [PCData ''NVIDIA GeForce RTX 4090''],
         Element ''temperature'' [Element ''gpu_temp'' [PCData ''N/A'']],
         Element ''fb_memory_usage''
           [Element ''total'' [PCData ''24576 MiB''], Element ''used'' [PCData ''4096 MiB'']],
         Element ''utilization'' [Element ''gpu_util'' [PCData ''12 %'']]]]]"

text \<open>Some content of the stack where \<^verbatim>\<open>parseGpuData\<close> puts its local record.\<close>

definition indeterminate_example :: GpuData where
  "indeterminate_example = \<lparr> name = [], driverVersion = [], temperature = 7,
       memoryTotal = 3 / 2, memoryUsed = 5 / 2, utilizationGpu = 9 \<rparr>"

text \<open>
  A machine with 16 GiB of memory, half of it free, where the tool is found through the
  bare name only and writes \<open>out\<close>, which the XML parser turns into \<open>doc\<close> (\<open>None\<close>: a parse
  error).
\<close>

definition example_env ::
  "system_times option \<Rightarrow> string \<Rightarrow> xml_node_struct option \<Rightarrow> os_env" where
  "example_env st out doc =
     \<lparr> GetSystemTimes = st,
       GlobalMemoryStatusEx = \<lparr> ullTotalPhys = 17179869184, ullAvailPhys = 8589934592 \<rparr>,
       registryPath = None,
       PathFileExistsA = (\<lambda>p. False),
       GetModuleFileNameA = ''stats_display.exe'',
       envPATH = None,
       CreatePipe = True,
       CreateProcessA = (\<lambda>cmd. if cmd = ''nvidia-smi.exe -q -x'' then Inr out else Inl 2),
       load_string = (\<lambda>s. if s = out then doc else None),
       uninitialized = indeterminate_example \<rparr>"

definition full_gpu_data :: GpuData where
  "full_gpu_data = \<lparr> name = ''NVIDIA GeForce RTX 4090'', driverVersion = ''551.23'',
       temperature = 65, memoryTotal = 24, memoryUsed = 4, utilizationGpu = 12 \<rparr>"

text \<open>
  The globals after three refresh cycles that start from \<open>after_first_call\<close>: a cycle that
  reads the complete document at the counters (130, 260, 50); a cycle with empty output at
  (160, 320, 50) that follows it; and a cycle that reads the document without GPU record
  at (130, 260, 50).
\<close>

definition after_good_cycle :: globals where
  "after_good_cycle =
     \<lparr> g_statsText =
         ''CPU Usage: 50.00%'' @ [newline] @ ''RAM Usage: 8.00 GB'' @ [newline] @
         [newline] @ ''--- GPU Stats ---'' @ [newline] @
         ''GPU: NVIDIA GeForce RTX 4090'' @ [newline] @ ''Temp: 65 C'' @ [newline] @
         ''VRAM: 4.00 GB / 24.00 GB'' @ [newline] @ ''GPU Util: 12 %'',
       g_gpuDataAvailable = True,
       previousIdleTime = 130,
       previousKernelTime = 260,
       previousUserTime = 50,
       firstCall = False,
       g_gpuData = full_gpu_data,
       timerSet = False \<rparr>"

definition after_failed_cycle :: globals where
  "after_failed_cycle =
     \<lparr> g_statsText =
         ''CPU Usage: 50.00%'' @ [newline] @ ''RAM Usage: 8.00 GB'' @ [newline] @
         [newline] @ ''--- GPU Stats ---'' @ [newline] @
         ''GPU data not available or initializing...'',
       g_gpuDataAvailable = False,
       previousIdleTime = 160,
       previousKernelTime = 320,
       previousUserTime = 50,
       firstCall = False,
       g_gpuData = full_gpu_data,
       timerSet = False \<rparr>"

text \<open>
  The globals after a refresh cycle that starts from \<open>after_first_call\<close> and reads the
  document with the temperature not available at the counters (130, 260, 50).
\<close>

definition after_cycle_not_applicable :: globals where
  "after_cycle_not_applicable =
     \<lparr> g_statsText =
         ''CPU Usage: 50.00%'' @ [newline] @ ''RAM Usage: 8.00 GB'' @ [newline] @
         [newline] @ ''--- GPU Stats ---'' @ [newline] @
         ''GPU data not available or initializing...'',
       g_gpuDataAvailable = False,
       previousIdleTime = 130,
       previousKernelTime = 260,
       previousUserTime = 50,
       firstCall = False,
       g_gpuData = \<lparr> name = [], driverVersion = [], temperature = 0,
                     memoryTotal = 0, memoryUsed = 0, utilizationGpu = 0 \<rparr>,
       timerSet = False \<rparr>"

definition after_cycle_without_gpu_record :: globals where
  "after_cycle_without_gpu_record =
     \<lparr> g_statsText =
         ''CPU Usage: 50.00%'' @ [newline] @ ''RAM Usage: 8.00 GB'' @ [newline] @
         [newline] @ ''--- GPU Stats ---'' @ [newline] @
         ''GPU: '' @ [newline] @ ''Temp: 7 C'' @ [newline] @
         ''VRAM: 2.50 GB / 1.50 GB'' @ [newline] @ ''GPU Util: 9 %'',
       g_gpuDataAvailable = True,
       previousIdleTime = 130,
       previousKernelTime = 260,
       previousUserTime = 50,
       firstCall = False,
       g_gpuData = indeterminate_example,
       timerSet = False \<rparr>"

text \<open>
  A machine where the registry names the directory \<^verbatim>\<open>C:\NVSMI\<close> and every file asked for
  exists, the ones of the fallback steps included.
\<close>

definition registry_env :: os_env where
  "registry_env =
     \<lparr> GetSystemTimes = None,
       GlobalMemoryStatusEx = \<lparr> ullTotalPhys = 17179869184, ullAvailPhys = 8589934592 \<rparr>,
       registryPath = Some (''C:'' @ [backslash] @ ''NVSMI''),
       PathFileExistsA = (\<lambda>p. True),
       GetModuleFileNameA = ''C:'' @ [backslash] @ ''tools'' @ [backslash] @ ''stats_display.exe'',
       envPATH = Some (''C:'' @ [backslash] @ ''Windows;C:'' @ [backslash] @ ''bin''),
       CreatePipe = True,
       CreateProcessA = (\<lambda>cmd. Inr []),
       load_string = (\<lambda>s. None),
       uninitialized = indeterminate_example \<rparr>"

text \<open>
  The globals after a \<^verbatim>\<open>WM_CREATE\<close> whose read of the system times failed, followed by a
  timer tick with the counters at (50, 100, 0) and empty output of the tool.
\<close>

definition after_failed_create_and_tick :: globals where
  "after_failed_create_and_tick =
     \<lparr> g_statsText =
         ''CPU Usage: 0.00%'' @ [newline] @ ''RAM Usage: 8.00 GB'' @ [newline] @
         [newline] @ ''--- GPU Stats ---'' @ [newline] @
         ''GPU data not available or initializing...'',
       g_gpuDataAvailable = False,
       previousIdleTime = 50,
       previousKernelTime = 100,
       previousUserTime = 0,
       firstCall = False,
       g_gpuData = \<lparr> name = [], driverVersion = [], temperature = 0,
                     memoryTotal = 0, memoryUsed = 0, utilizationGpu = 0 \<rparr>,
       timerSet = True \<rparr>"

section \<open>Evaluation of the formatting functions\<close>

lemma to_string_nat_small: "n < 10 \<Longrightarrow> to_string_nat n = [digit_char n]"
  by (simp add: to_string_nat.simps)

lemma to_string_nat_large:
  "10 \<le> n \<Longrightarrow> to_string_nat n = to_string_nat (n div 10) @ [digit_char (n mod 10)]"
  by (subst to_string_nat.simps) simp

lemma round_half_even_of_int: "round_half_even (of_int n) = n"
  by (simp add: round_half_even_def)

lemma round_half_even_numeral: "round_half_even (numeral k) = numeral k"
  using round_half_even_of_int [of "numeral k"] by simp

lemma round_half_even_zero: "round_half_even 0 = 0"
  using round_half_even_of_int [of 0] by simp

lemma round_half_even_fraction:
  assumes "0 < b"
  shows "round_half_even (of_int a / of_int b) =
    (if 2 * (a mod b) < b then a div b
     else if b < 2 * (a mod b) then a div b + 1
     else if even (a div b) then a div b else a div b + 1)"
proof -
  have fl: "\<lfloor>(of_int a / of_int b :: rat)\<rfloor> = a div b"
    by (simp add: floor_divide_of_int_eq)
  have "(of_int a :: rat) = of_int (a div b) * of_int b + of_int (a mod b)"
    by (metis div_mult_mod_eq of_int_add of_int_mult)
  then have d: "(of_int a / of_int b :: rat) - of_int (a div b) = of_int (a mod b) / of_int b"
    using assms by (simp add: field_simps)
  have bpos: "(0 :: rat) < of_int b"
    using assms by simp
  have lt: "(of_int (a mod b) / of_int b < (1 / 2 :: rat)) = (2 * (a mod b) < b)"
  proof -
    have "(of_int (a mod b) / of_int b < (1 / 2 :: rat)) =
          ((of_int (2 * (a mod b)) :: rat) < of_int b)"
      using bpos by (simp add: field_simps)
    then show ?thesis by (simp only: of_int_less_iff)
  qed
  have gt: "((1 / 2 :: rat) < of_int (a mod b) / of_int b) = (b < 2 * (a mod b))"
  proof -
    have "((1 / 2 :: rat) < of_int (a mod b) / of_int b) =
          ((of_int b :: rat) < of_int (2 * (a mod b)))"
      using bpos by (simp add: field_simps)
    then show ?thesis by (simp only: of_int_less_iff)
  qed
  show ?thesis
    unfolding round_half_even_def Let_def fl d lt gt by simp
qed

lemma round_half_even_divide_numeral:
  "round_half_even (numeral a / numeral b) =
    (if 2 * (numeral a mod numeral b) < (numeral b :: int) then numeral a div numeral b
     else if (numeral b :: int) < 2 * (numeral a mod numeral b) then numeral a div numeral b + 1
     else if even (numeral a div numeral b :: int) then numeral a div numeral b
     else numeral a div numeral b + 1)"
  using round_half_even_fraction [of "numeral b" "numeral a"] by simp

lemma digit_char_isdigit: "m < 10 \<Longrightarrow> isdigit (digit_char m)"
proof -
  assume "m < 10"
  then have "m < length ''0123456789''"
    by simp
  then have "''0123456789'' ! m \<in> set ''0123456789''"
    by (rule nth_mem)
  then show ?thesis
    unfolding isdigit_def digit_char_def .
qed

lemma to_string_nat_digits: "list_all isdigit (to_string_nat n)"
proof (induction n rule: to_string_nat.induct)
  case (1 n)
  show ?case
  proof (cases "n < 10")
    case True
    then show ?thesis
      by (simp add: to_string_nat_small digit_char_isdigit)
  next
    case False
    then have "list_all isdigit (to_string_nat (n div 10))"
      using 1 by simp
    then show ?thesis
      using False by (simp add: to_string_nat_large digit_char_isdigit)
  qed
qed

lemma to_string_nat_nonempty: "to_string_nat n \<noteq> []"
  by (cases "n < 10") (simp_all add: to_string_nat_small to_string_nat_large)

lemmas format_eval = fixed2_def to_string_uint_def to_string_nat_small to_string_nat_large
  digit_char_def round_half_even_numeral round_half_even_zero round_half_even_divide_numeral

lemma after_first_call_eq:
  "after_first_call =
     \<lparr> g_statsText = ''Initializing...'',
       g_gpuDataAvailable = False,
       previousIdleTime = 100,
       previousKernelTime = 200,
       previousUserTime = 50,
       firstCall = False,
       g_gpuData = \<lparr> name = [], driverVersion = [], temperature = 0,
                     memoryTotal = 0, memoryUsed = 0, utilizationGpu = 0 \<rparr>,
       timerSet = False \<rparr>"
  by (simp add: after_first_call_def getCurrentCpuUsage_def initial_globals_def snapshot_def
      FileTimeToInt64_def ticks_def)

lemmas cpu_eval = after_first_call_eq snapshot_def FileTimeToInt64_def ticks_def
  idleTimeDelta_def kernelTimeDelta_def userTimeDelta_def

section \<open>Properties of the CPU block\<close>

lemma double_of_ull_nonneg: "0 \<le> double_of_ull w"
  unfolding double_of_ull_def by (simp only: of_nat_0_le_iff)

lemma double_of_ull_pos: "w \<noteq> 0 \<Longrightarrow> 0 < double_of_ull w"
proof -
  assume "w \<noteq> 0"
  then have "0 < unat w"
    by (simp add: unat_gt_0)
  then show ?thesis
    unfolding double_of_ull_def by (simp only: of_nat_0_less_iff)
qed

lemma double_of_ull_mono: "v \<le> w \<Longrightarrow> double_of_ull v \<le> double_of_ull w"
proof -
  assume "v \<le> w"
  then have "unat v \<le> unat w"
    by (simp add: word_le_nat_alt)
  then show ?thesis
    unfolding double_of_ull_def by (simp only: of_nat_le_iff)
qed

text \<open>
  A call that is not the first and whose read succeeded: the result and the new globals
  in terms of the three deltas. The division is never one by zero.
\<close>

lemma getCurrentCpuUsage_later:
  assumes "\<not> firstCall g"
  shows "getCurrentCpuUsage (Some t) g =
    (if kernelTimeDelta t g + userTimeDelta t g = 0 then Inr 0
     else Inr ((1 - double_of_ull (idleTimeDelta t g) /
                 double_of_ull (kernelTimeDelta t g + userTimeDelta t g)) * 100),
     g\<lparr> previousIdleTime := FileTimeToInt64 (idleTime t),
        previousKernelTime := FileTimeToInt64 (kernelTime t),
        previousUserTime := FileTimeToInt64 (userTime t) \<rparr>)"
proof -
  have nz: "double_of_ull w \<noteq> 0" if "w \<noteq> 0" for w
    using double_of_ull_pos [OF that] by simp
  show ?thesis
    using assms
    by (simp add: getCurrentCpuUsage_def Let_def divide_double_def nz
        idleTimeDelta_def kernelTimeDelta_def userTimeDelta_def)
qed

lemma getCurrentCpuUsage_first:
  assumes "firstCall g"
  shows "getCurrentCpuUsage (Some t) g =
    (Inr 0, g\<lparr> previousIdleTime := FileTimeToInt64 (idleTime t),
               previousKernelTime := FileTimeToInt64 (kernelTime t),
               previousUserTime := FileTimeToInt64 (userTime t),
               firstCall := False \<rparr>)"
  using assms by (simp add: getCurrentCpuUsage_def Let_def)

lemma getCurrentCpuUsage_failed: "getCurrentCpuUsage None g = (Inr (- 1), g)"
  by (simp add: getCurrentCpuUsage_def)

lemma percentage_bounds:
  fixes q :: rat
  assumes "0 \<le> q" "q \<le> 1"
  shows "0 \<le> (1 - q) * 100 \<and> (1 - q) * 100 \<le> 100"
  using assms by simp

text \<open>
  Claim C9. A call that is not the first, with a successful read and with the kernel-time
  delta plus the user-time delta equal to 0 (in 64-bit arithmetic, as the code computes
  it), returns 0; the result is a value, not the fault of a division by zero.
\<close>

theorem cpu_usage_zero_without_activity:
  assumes "\<not> firstCall g"
    and "kernelTimeDelta t g + userTimeDelta t g = 0"
  shows "fst (getCurrentCpuUsage (Some t) g) = Inr 0"
  using assms by (simp add: getCurrentCpuUsage_later)

theorem cpu_usage_zero_without_activity_witness:
  "\<not> firstCall after_first_call \<and>
   kernelTimeDelta (snapshot 130 200 50) after_first_call +
     userTimeDelta (snapshot 130 200 50) after_first_call = 0 \<and>
   fst (getCurrentCpuUsage (Some (snapshot 130 200 50)) after_first_call) = Inr 0"
proof -
  have a: "\<not> firstCall after_first_call"
    by (simp add: cpu_eval)
  have b: "kernelTimeDelta (snapshot 130 200 50) after_first_call +
     userTimeDelta (snapshot 130 200 50) after_first_call = 0"
    by (simp add: cpu_eval)
  show ?thesis
    using a b cpu_usage_zero_without_activity [OF a b] by simp
qed

text \<open>
  Claim C1, as the spec states it: between two consecutive calls, a strictly positive sum
  of the kernel-time and user-time deltas puts the usage in the interval from 0 to 100.
  It fails: the code never compares the idle delta with that sum. After a first call at
  (100, 200, 50), the snapshot (110, 201, 50) has an idle delta of 10 and a sum of 1, and
  the call returns \<open>(1 - 10 / 1) * 100 = -900\<close>.
\<close>

theorem cpu_usage_range_counterexample:
  "\<not> firstCall after_first_call \<and>
   0 < kernelTimeDelta (snapshot 110 201 50) after_first_call +
         userTimeDelta (snapshot 110 201 50) after_first_call \<and>
   fst (getCurrentCpuUsage (Some (snapshot 110 201 50)) after_first_call) = Inr (- 900)"
  by (simp add: cpu_eval getCurrentCpuUsage_def divide_double_def double_of_ull_def)

text \<open>
  Claim C1, amended: when moreover the idle-time delta does not exceed the sum of the
  kernel-time and user-time deltas (what the operating system promises, as its kernel time
  includes the idle time), the returned usage lies between 0 and 100.
\<close>

theorem cpu_usage_range:
  assumes "\<not> firstCall g"
    and "0 < kernelTimeDelta t g + userTimeDelta t g"
    and "idleTimeDelta t g \<le> kernelTimeDelta t g + userTimeDelta t g"
  shows "\<exists>v. fst (getCurrentCpuUsage (Some t) g) = Inr v \<and> 0 \<le> v \<and> v \<le> 100"
proof -
  let ?tot = "kernelTimeDelta t g + userTimeDelta t g"
  let ?q = "double_of_ull (idleTimeDelta t g) / double_of_ull ?tot"
  have nz: "?tot \<noteq> 0"
    using assms(2) by auto
  have pos: "0 < double_of_ull ?tot"
    by (rule double_of_ull_pos [OF nz])
  have q1: "?q \<le> 1"
    using pos double_of_ull_mono [OF assms(3)] by (simp add: divide_le_eq_1)
  have q0: "0 \<le> ?q"
    using pos double_of_ull_nonneg [of "idleTimeDelta t g"] by simp
  have res: "fst (getCurrentCpuUsage (Some t) g) = Inr ((1 - ?q) * 100)"
    using assms(1) nz by (simp add: getCurrentCpuUsage_later)
  show ?thesis
    using res percentage_bounds [OF q0 q1] by blast
qed

theorem cpu_usage_range_witness:
  "\<not> firstCall after_first_call \<and>
   0 < kernelTimeDelta (snapshot 130 300 50) after_first_call +
         userTimeDelta (snapshot 130 300 50) after_first_call \<and>
   idleTimeDelta (snapshot 130 300 50) after_first_call
     \<le> kernelTimeDelta (snapshot 130 300 50) after_first_call +
         userTimeDelta (snapshot 130 300 50) after_first_call \<and>
   (\<exists>v. fst (getCurrentCpuUsage (Some (snapshot 130 300 50)) after_first_call) = Inr v \<and>
        0 \<le> v \<and> v \<le> 100)"
proof -
  have a: "\<not> firstCall after_first_call"
    by (simp add: cpu_eval)
  have b: "0 < kernelTimeDelta (snapshot 130 300 50) after_first_call +
         userTimeDelta (snapshot 130 300 50) after_first_call"
    by (simp add: cpu_eval)
  have c: "idleTimeDelta (snapshot 130 300 50) after_first_call
     \<le> kernelTimeDelta (snapshot 130 300 50) after_first_call +
         userTimeDelta (snapshot 130 300 50) after_first_call"
    by (simp add: cpu_eval)
  show ?thesis
    using a b c cpu_usage_range [OF a b c] by blast
qed

text \<open>
  Claim C7, as the spec states it: every call overwrites the three baseline counters with
  the current snapshot and discards the prior sample. It fails for a call whose read of
  the system times fails: the function returns -1 before it touches the counters, and the
  prior sample (100, 200, 50) is still the baseline.
\<close>

theorem cpu_baseline_overwritten_counterexample:
  "getCurrentCpuUsage None after_first_call = (Inr (- 1), after_first_call) \<and>
   previousIdleTime after_first_call = 100 \<and>
   previousKernelTime after_first_call = 200 \<and>
   previousUserTime after_first_call = 50"
  by (simp add: getCurrentCpuUsage_failed) (simp add: cpu_eval)

text \<open>
  Claim C7, amended: every call whose read of the system times succeeds, the first one as
  well as a later one, leaves the three baseline counters equal to the current snapshot;
  a call whose read fails leaves the globals as they were.
\<close>

theorem cpu_baseline_overwritten:
  "previousIdleTime (snd (getCurrentCpuUsage (Some t) g)) = FileTimeToInt64 (idleTime t) \<and>
   previousKernelTime (snd (getCurrentCpuUsage (Some t) g)) = FileTimeToInt64 (kernelTime t) \<and>
   previousUserTime (snd (getCurrentCpuUsage (Some t) g)) = FileTimeToInt64 (userTime t) \<and>
   snd (getCurrentCpuUsage None g) = g"
proof (cases "firstCall g")
  case True
  then show ?thesis
    by (simp add: getCurrentCpuUsage_first getCurrentCpuUsage_failed)
next
  case False
  then show ?thesis
    by (simp add: getCurrentCpuUsage_later getCurrentCpuUsage_failed)
qed

section \<open>Evaluation of the examples\<close>

lemmas stoul_eval = stoul_def isspace_def isdigit_def digit_value_def

lemma example_env_getNVSMIPath: "getNVSMIPath (example_env st out doc) = ''nvidia-smi.exe''"
  by (simp add: getNVSMIPath_def getNVSMIPathFromRegistry_def example_env_def commonPaths_def
      fileExists_def findInPath_def find_last_of_def)

lemma example_env_getXmlGpuData: "getXmlGpuData (example_env st out doc) = Inr out"
  by (simp add: getXmlGpuData_def example_env_getNVSMIPath exec_no_console_def)
     (simp add: example_env_def)

lemma example_env_fields:
  "GetSystemTimes (example_env st out doc) = st"
  "load_string (example_env st out doc) out = doc"
  "uninitialized (example_env st out doc) = indeterminate_example"
  by (simp_all add: example_env_def)

lemma example_env_ram: "getCurrentRamUsage (GlobalMemoryStatusEx (example_env st out doc)) = 8"
  by (simp add: getCurrentRamUsage_def example_env_def double_of_ull_def)

lemma parseGpuData_full_doc: "parseGpuData indeterminate_example (Some full_doc) = Inr full_gpu_data"
  by (simp add: parseGpuData_def full_doc_def indeterminate_example_def full_gpu_data_def
      stoul_eval double_of_ulong_def)

section \<open>The refresh\<close>

lemma getCurrentCpuUsage_value: "\<exists>v. fst (getCurrentCpuUsage st g) = Inr v"
proof (cases st)
  case None
  then show ?thesis by (simp add: getCurrentCpuUsage_failed)
next
  case (Some t)
  then show ?thesis
    by (cases "firstCall g") (simp_all add: getCurrentCpuUsage_first getCurrentCpuUsage_later)
qed

lemma getCurrentCpuUsage_gpu_fields:
  "g_gpuData (snd (getCurrentCpuUsage st g)) = g_gpuData g"
  "g_gpuDataAvailable (snd (getCurrentCpuUsage st g)) = g_gpuDataAvailable g"
proof -
  show "g_gpuData (snd (getCurrentCpuUsage st g)) = g_gpuData g"
  proof (cases st)
    case None
    then show ?thesis by (simp add: getCurrentCpuUsage_failed)
  next
    case (Some t)
    then show ?thesis
      by (cases "firstCall g") (simp_all add: getCurrentCpuUsage_first getCurrentCpuUsage_later)
  qed
  show "g_gpuDataAvailable (snd (getCurrentCpuUsage st g)) = g_gpuDataAvailable g"
  proof (cases st)
    case None
    then show ?thesis by (simp add: getCurrentCpuUsage_failed)
  next
    case (Some t)
    then show ?thesis
      by (cases "firstCall g") (simp_all add: getCurrentCpuUsage_first getCurrentCpuUsage_later)
  qed
qed

text \<open>The refresh never leaves through a fault; what it returns.\<close>

lemma refreshAllData_result:
  obtains cpuUsage g1 where
    "getCurrentCpuUsage (GetSystemTimes env) g = (Inr cpuUsage, g1)"
    "refreshAllData env g =
       Inr ((refreshGpu env g1)
         \<lparr> g_statsText := take 1023
             (cpu_ram_text cpuUsage (getCurrentRamUsage (GlobalMemoryStatusEx env)) @
              gpu_text (g_gpuDataAvailable (refreshGpu env g1))
                (g_gpuData (refreshGpu env g1))) \<rparr>)"
proof -
  obtain r g1 where eq: "getCurrentCpuUsage (GetSystemTimes env) g = (r, g1)"
    by (cases "getCurrentCpuUsage (GetSystemTimes env) g")
  obtain v where "fst (getCurrentCpuUsage (GetSystemTimes env) g) = Inr v"
    using getCurrentCpuUsage_value by blast
  with eq have eq': "getCurrentCpuUsage (GetSystemTimes env) g = (Inr v, g1)"
    by simp
  have "refreshAllData env g =
       Inr ((refreshGpu env g1)
         \<lparr> g_statsText := take 1023
             (cpu_ram_text v (getCurrentRamUsage (GlobalMemoryStatusEx env)) @
              gpu_text (g_gpuDataAvailable (refreshGpu env g1))
                (g_gpuData (refreshGpu env g1))) \<rparr>)"
    by (simp add: refreshAllData_def eq' Let_def del: take_append)
  with eq' show ?thesis using that by blast
qed

lemma refreshGpu_failed:
  assumes "getXmlGpuData env = Inl e \<or> getXmlGpuData env = Inr [] \<or>
     (getXmlGpuData env = Inr out \<and> load_string env out = None) \<or>
     (getXmlGpuData env = Inr out \<and> load_string env out = Some doc \<and>
      parseGpuData (uninitialized env) (Some doc) = Inl e')"
  shows "refreshGpu env g = g\<lparr> g_gpuDataAvailable := False \<rparr>"
  using assms by (auto simp add: refreshGpu_def)

lemma refreshGpu_parsed:
  assumes "getXmlGpuData env = Inr out" "out \<noteq> []" "load_string env out = Some doc"
    "parseGpuData (uninitialized env) (Some doc) = Inr d"
  shows "refreshGpu env g = g\<lparr> g_gpuData := d, g_gpuDataAvailable := True \<rparr>"
  using assms by (simp add: refreshGpu_def)

lemma refreshGpu_cases:
  "(\<exists>out doc d. getXmlGpuData env = Inr out \<and> out \<noteq> [] \<and> load_string env out = Some doc \<and>
      parseGpuData (uninitialized env) (Some doc) = Inr d \<and>
      refreshGpu env g = g\<lparr> g_gpuData := d, g_gpuDataAvailable := True \<rparr>) \<or>
   refreshGpu env g = g\<lparr> g_gpuDataAvailable := False \<rparr>"
  by (auto simp add: refreshGpu_def split: sum.splits option.splits)

lemma parseGpuData_without_gpu:
  assumes "child (child doc ''nvidia_smi_log'') ''gpu'' = None"
  shows "parseGpuData ind doc = Inr (ind\<lparr> name := [], driverVersion := [] \<rparr>)"
  using assms by (simp add: parseGpuData_def)

section \<open>The example cycles\<close>

lemma cpu_example_50:
  "getCurrentCpuUsage (Some (snapshot 130 260 50)) after_first_call =
     (Inr 50, after_first_call\<lparr> previousIdleTime := 130, previousKernelTime := 260,
        previousUserTime := 50 \<rparr>)"
  by (simp add: cpu_eval getCurrentCpuUsage_def divide_double_def double_of_ull_def)

lemma cpu_example_50_again:
  "getCurrentCpuUsage (Some (snapshot 160 320 50)) after_good_cycle =
     (Inr 50, after_good_cycle\<lparr> previousIdleTime := 160, previousKernelTime := 320,
        previousUserTime := 50 \<rparr>)"
  by (simp add: after_good_cycle_def snapshot_def FileTimeToInt64_def ticks_def
      getCurrentCpuUsage_def divide_double_def double_of_ull_def)

lemma no_gpu_doc_child: "child (child (Some no_gpu_doc) ''nvidia_smi_log'') ''gpu'' = None"
  by (simp add: no_gpu_doc_def)

lemma no_gpu_xml_nonempty: "no_gpu_xml \<noteq> []"
  by (simp add: no_gpu_xml_def)

lemma full_xml_nonempty: "full_xml \<noteq> []"
  by (simp add: full_xml_def)

lemma cpu_ram_text_example:
  "cpu_ram_text 50 8 = ''CPU Usage: 50.00%'' @ [newline] @ ''RAM Usage: 8.00 GB'' @ [newline]"
  by (simp add: cpu_ram_text_def format_eval)

lemma gpu_text_unavailable:
  "gpu_text False d = [newline] @ ''--- GPU Stats ---'' @ [newline] @
     ''GPU data not available or initializing...''"
  by (simp add: gpu_text_def)

lemma gpu_text_full_gpu_data:
  "gpu_text True full_gpu_data =
     [newline] @ ''--- GPU Stats ---'' @ [newline] @
     ''GPU: NVIDIA GeForce RTX 4090'' @ [newline] @ ''Temp: 65 C'' @ [newline] @
     ''VRAM: 4.00 GB / 24.00 GB'' @ [newline] @ ''GPU Util: 12 %''"
  by (simp add: gpu_text_def full_gpu_data_def format_eval)

lemma gpu_text_indeterminate_example:
  "gpu_text True indeterminate_example =
     [newline] @ ''--- GPU Stats ---'' @ [newline] @
     ''GPU: '' @ [newline] @ ''Temp: 7 C'' @ [newline] @
     ''VRAM: 2.50 GB / 1.50 GB'' @ [newline] @ ''GPU Util: 9 %''"
  by (simp add: gpu_text_def indeterminate_example_def format_eval)

lemma refreshGpu_no_gpu_doc:
  "refreshGpu (example_env st no_gpu_xml (Some no_gpu_doc)) g =
     g\<lparr> g_gpuData := indeterminate_example, g_gpuDataAvailable := True \<rparr>"
proof -
  have "parseGpuData indeterminate_example (Some no_gpu_doc) = Inr indeterminate_example"
    by (simp add: parseGpuData_without_gpu [OF no_gpu_doc_child])
       (simp add: indeterminate_example_def)
  then show ?thesis
    by (simp add: refreshGpu_def example_env_getXmlGpuData no_gpu_xml_nonempty
        example_env_fields)
qed

lemma refreshGpu_full_doc:
  "refreshGpu (example_env st full_xml (Some full_doc)) g =
     g\<lparr> g_gpuData := full_gpu_data, g_gpuDataAvailable := True \<rparr>"
  by (simp add: refreshGpu_def example_env_getXmlGpuData full_xml_nonempty
      example_env_fields parseGpuData_full_doc)

lemma refreshGpu_empty_output:
  "refreshGpu (example_env st [] None) g = g\<lparr> g_gpuDataAvailable := False \<rparr>"
  by (simp add: refreshGpu_def example_env_getXmlGpuData)

lemma refresh_good_cycle:
  "refreshAllData (example_env (Some (snapshot 130 260 50)) full_xml (Some full_doc))
     after_first_call = Inr after_good_cycle"
  by (simp add: refreshAllData_def example_env_fields cpu_example_50 example_env_ram
      refreshGpu_full_doc cpu_ram_text_example gpu_text_full_gpu_data)
     (simp add: after_first_call_eq after_good_cycle_def)

lemma refresh_failed_cycle:
  "refreshAllData (example_env (Some (snapshot 160 320 50)) [] None) after_good_cycle =
     Inr after_failed_cycle"
  by (simp add: refreshAllData_def example_env_fields cpu_example_50_again example_env_ram
      refreshGpu_empty_output cpu_ram_text_example gpu_text_unavailable)
     (simp add: after_good_cycle_def after_failed_cycle_def)

lemma refresh_cycle_without_gpu_record:
  "refreshAllData (example_env (Some (snapshot 130 260 50)) no_gpu_xml (Some no_gpu_doc))
     after_first_call = Inr after_cycle_without_gpu_record"
  by (simp add: refreshAllData_def example_env_fields cpu_example_50 example_env_ram
      refreshGpu_no_gpu_doc cpu_ram_text_example gpu_text_indeterminate_example)
     (simp add: after_first_call_eq after_cycle_without_gpu_record_def)

section \<open>Properties of the GPU block\<close>

lemma stoul_empty: "stoul [] = Inl invalid_argument"
  by (simp add: stoul_def)

lemma digit_value_digit_char: "m < 10 \<Longrightarrow> digit_value (digit_char m) = m"
proof -
  assume "m < 10"
  then have "m \<in> {0, 1, 2, 3, 4, 5, 6, 7, 8, 9}"
    by auto
  then show ?thesis
    by (auto simp add: digit_value_def digit_char_def)
qed

lemma foldl_to_string_nat:
  "foldl (\<lambda>a c. a * 10 + digit_value c) 0 (to_string_nat n) = n"
proof (induction n rule: to_string_nat.induct)
  case (1 n)
  show ?case
  proof (cases "n < 10")
    case True
    then show ?thesis
      by (simp add: to_string_nat_small digit_value_digit_char)
  next
    case False
    then have "foldl (\<lambda>a c. a * 10 + digit_value c) 0 (to_string_nat (n div 10)) = n div 10"
      using 1 by simp
    then show ?thesis
      using False by (simp add: to_string_nat_large digit_value_digit_char)
  qed
qed

lemma takeWhile_prefix:
  "list_all P xs \<Longrightarrow> takeWhile P ys = [] \<Longrightarrow> takeWhile P (xs @ ys) = xs"
  by (induction xs) simp_all

lemma isdigit_not_space: "isdigit c \<Longrightarrow> \<not> isspace c"
  by (auto simp add: isdigit_def isspace_def)

lemma isdigit_not_sign: "isdigit c \<Longrightarrow> c \<noteq> CHR ''-'' \<and> c \<noteq> CHR ''+''"
  by (auto simp add: isdigit_def)

text \<open>
  \<^verbatim>\<open>std::stoul\<close> reads back a number below \<open>2 ^ 32\<close> written in decimal, whatever follows it,
  as long as that is not one more digit.
\<close>

lemma stoul_decimal:
  assumes "n < 2 ^ 32" "rest = [] \<or> \<not> isdigit (hd rest)"
  shows "stoul (to_string_nat n @ rest) = Inr (of_nat n)"
proof -
  obtain c cs where ds: "to_string_nat n = c # cs"
    using to_string_nat_nonempty [of n] by (cases "to_string_nat n") simp_all
  have all: "list_all isdigit (c # cs)"
    using to_string_nat_digits [of n] ds by simp
  then have c: "isdigit c"
    by simp
  have tk0: "takeWhile isdigit rest = []"
    using assms(2) by (cases rest) simp_all
  have tk: "takeWhile isdigit ((c # cs) @ rest) = c # cs"
    by (rule takeWhile_prefix [OF all tk0])
  have v: "foldl (\<lambda>a c. a * 10 + digit_value c) 0 (c # cs) = n"
    using foldl_to_string_nat [of n] ds by simp
  have le: "\<not> 2 ^ 32 - 1 < n"
    using assms(1) by simp
  show ?thesis
    unfolding ds stoul_def Let_def
    using isdigit_not_space [OF c] isdigit_not_sign [OF c] tk v le
    by (simp del: foldl_Cons takeWhile.simps)
qed

lemma stoul_text_present:
  assumes "stoul (text_get n) = Inr v"
  shows "n \<noteq> None"
  using assms by (cases n) (simp_all add: stoul_empty)

lemma child_present:
  assumes "child n nm \<noteq> None"
  shows "n \<noteq> None"
  using assms by (cases n) simp_all

lemma parseGpuData_complete:
  assumes temp: "stoul (field_text doc [''nvidia_smi_log'', ''gpu'', ''temperature'', ''gpu_temp'']) = Inr t"
    and total: "stoul (field_text doc [''nvidia_smi_log'', ''gpu'', ''fb_memory_usage'', ''total'']) = Inr mt"
    and used: "stoul (field_text doc [''nvidia_smi_log'', ''gpu'', ''fb_memory_usage'', ''used'']) = Inr mu"
    and util: "stoul (field_text doc [''nvidia_smi_log'', ''gpu'', ''utilization'', ''gpu_util'']) = Inr u"
  shows "parseGpuData ind (Some doc) =
     Inr \<lparr> name = field_text doc [''nvidia_smi_log'', ''gpu'', ''product_name''],
           driverVersion = field_text doc [''nvidia_smi_log'', ''driver_version''],
           temperature = t,
           memoryTotal = double_of_ulong mt / 1024,
           memoryUsed = double_of_ulong mu / 1024,
           utilizationGpu = u \<rparr>"
proof -
  let ?gpu = "child (child (Some doc) ''nvidia_smi_log'') ''gpu''"
  have t1: "child (child ?gpu ''temperature'') ''gpu_temp'' \<noteq> None"
    using stoul_text_present [OF temp [unfolded field_text_def]] by simp
  have m0: "child (child ?gpu ''fb_memory_usage'') ''total'' \<noteq> None"
    using stoul_text_present [OF total [unfolded field_text_def]] by simp
  have m1: "child ?gpu ''fb_memory_usage'' \<noteq> None"
    by (rule child_present [OF m0])
  have g: "?gpu \<noteq> None"
    by (rule child_present [OF m1])
  have u0: "child (child ?gpu ''utilization'') ''gpu_util'' \<noteq> None"
    using stoul_text_present [OF util [unfolded field_text_def]] by simp
  have u1: "child ?gpu ''utilization'' \<noteq> None"
    by (rule child_present [OF u0])
  from t1 m1 g u1 temp total used util show ?thesis
    unfolding parseGpuData_def Let_def field_text_def by (simp del: not_None_eq)
qed

text \<open>A GPU record without temperature, memory and utilization records.\<close>

lemma parseGpuData_without_subrecords:
  assumes "child (child doc ''nvidia_smi_log'') ''gpu'' = Some gpu"
    and "child (child (Some gpu) ''temperature'') ''gpu_temp'' = None"
    and "child (Some gpu) ''fb_memory_usage'' = None"
    and "child (Some gpu) ''utilization'' = None"
  shows "parseGpuData ind doc =
     Inr (ind\<lparr> name := text_get (child (Some gpu) ''product_name''),
               driverVersion := text_get (child (child doc ''nvidia_smi_log'') ''driver_version'') \<rparr>)"
  using assms by (simp add: parseGpuData_def Let_def)

text \<open>A memory record without \<^verbatim>\<open>total\<close>, or a utilization record without \<^verbatim>\<open>gpu_util\<close>.\<close>

lemma parseGpuData_memory_without_total:
  assumes "child (child doc ''nvidia_smi_log'') ''gpu'' = Some gpu"
    and "child (child (Some gpu) ''temperature'') ''gpu_temp'' = None"
    and "child (Some gpu) ''fb_memory_usage'' = Some mn"
    and "child (Some mn) ''total'' = None"
  shows "parseGpuData ind doc = Inl invalid_argument"
  using assms by (simp add: parseGpuData_def Let_def stoul_empty)

text \<open>
  Claim C2, as the spec states it: a refresh whose input is an empty output, a malformed
  document or a well-formed document without the GPU record marks the GPU data unavailable.
  It fails for the third input: \<^verbatim>\<open>parseGpuData\<close> returns its local record when the GPU node
  is null, and \<^verbatim>\<open>refreshAllData\<close> sets the flag to true after every successful parse of the
  XML. With the document \<open>no_gpu_doc\<close> the flag is true and the text shows the indeterminate
  content of the local record.
\<close>

theorem gpu_refresh_missing_record_counterexample:
  "child (child (Some no_gpu_doc) ''nvidia_smi_log'') ''gpu'' = None \<and>
   refreshAllData (example_env (Some (snapshot 130 260 50)) no_gpu_xml (Some no_gpu_doc))
     after_first_call = Inr after_cycle_without_gpu_record \<and>
   g_gpuDataAvailable after_cycle_without_gpu_record"
  by (simp add: no_gpu_doc_child refresh_cycle_without_gpu_record)
     (simp add: after_cycle_without_gpu_record_def)

text \<open>
  Claim C2, amended: a refresh whose tool invocation throws, whose captured output is
  empty, or whose output is malformed (the XML parser reports an error) returns normally
  with the GPU data marked unavailable. A refresh that reads a well-formed document
  without the GPU record returns normally as well, but with the flag true and with empty
  name and driver version.
\<close>

theorem gpu_refresh_failure:
  "((getXmlGpuData env = Inl e \<or> getXmlGpuData env = Inr [] \<or>
     (getXmlGpuData env = Inr out \<and> load_string env out = None)) \<longrightarrow>
      (\<exists>g'. refreshAllData env g = Inr g' \<and> \<not> g_gpuDataAvailable g')) \<and>
   ((getXmlGpuData env = Inr out \<and> out \<noteq> [] \<and> load_string env out = Some doc \<and>
     child (child (Some doc) ''nvidia_smi_log'') ''gpu'' = None) \<longrightarrow>
      (\<exists>g'. refreshAllData env g = Inr g' \<and> g_gpuDataAvailable g' \<and>
            name (g_gpuData g') = [] \<and> driverVersion (g_gpuData g') = []))"
proof (intro conjI impI)
  assume a: "getXmlGpuData env = Inl e \<or> getXmlGpuData env = Inr [] \<or>
     (getXmlGpuData env = Inr out \<and> load_string env out = None)"
  obtain c g1 where r: "refreshAllData env g =
       Inr ((refreshGpu env g1)
         \<lparr> g_statsText := take 1023
             (cpu_ram_text c (getCurrentRamUsage (GlobalMemoryStatusEx env)) @
              gpu_text (g_gpuDataAvailable (refreshGpu env g1))
                (g_gpuData (refreshGpu env g1))) \<rparr>)"
    by (rule refreshAllData_result)
  have "refreshGpu env g1 = g1\<lparr> g_gpuDataAvailable := False \<rparr>"
    using a by (intro refreshGpu_failed) blast
  then show "\<exists>g'. refreshAllData env g = Inr g' \<and> \<not> g_gpuDataAvailable g'"
    using r by simp
next
  assume a: "getXmlGpuData env = Inr out \<and> out \<noteq> [] \<and> load_string env out = Some doc \<and>
     child (child (Some doc) ''nvidia_smi_log'') ''gpu'' = None"
  obtain c g1 where r: "refreshAllData env g =
       Inr ((refreshGpu env g1)
         \<lparr> g_statsText := take 1023
             (cpu_ram_text c (getCurrentRamUsage (GlobalMemoryStatusEx env)) @
              gpu_text (g_gpuDataAvailable (refreshGpu env g1))
                (g_gpuData (refreshGpu env g1))) \<rparr>)"
    by (rule refreshAllData_result)
  have p: "parseGpuData (uninitialized env) (Some doc) =
      Inr ((uninitialized env)\<lparr> name := [], driverVersion := [] \<rparr>)"
    using a by (simp add: parseGpuData_without_gpu)
  have "refreshGpu env g1 =
      g1\<lparr> g_gpuData := (uninitialized env)\<lparr> name := [], driverVersion := [] \<rparr>,
          g_gpuDataAvailable := True \<rparr>"
    using a p by (intro refreshGpu_parsed [of env out doc]) simp_all
  then show "\<exists>g'. refreshAllData env g = Inr g' \<and> g_gpuDataAvailable g' \<and>
            name (g_gpuData g') = [] \<and> driverVersion (g_gpuData g') = []"
    using r by simp
qed

theorem gpu_refresh_failure_witness:
  "getXmlGpuData (example_env None [] None) = Inr [] \<and>
   (\<exists>g'. refreshAllData (example_env None [] None) after_first_call = Inr g' \<and>
      \<not> g_gpuDataAvailable g') \<and>
   getXmlGpuData (example_env None ''<nvidia_smi_log>'' None) = Inr ''<nvidia_smi_log>'' \<and>
   load_string (example_env None ''<nvidia_smi_log>'' None) ''<nvidia_smi_log>'' = None \<and>
   (\<exists>g'. refreshAllData (example_env None ''<nvidia_smi_log>'' None) after_first_call =
      Inr g' \<and> \<not> g_gpuDataAvailable g') \<and>
   getXmlGpuData (example_env None no_gpu_xml (Some no_gpu_doc)) = Inr no_gpu_xml \<and>
   no_gpu_xml \<noteq> [] \<and>
   load_string (example_env None no_gpu_xml (Some no_gpu_doc)) no_gpu_xml = Some no_gpu_doc \<and>
   child (child (Some no_gpu_doc) ''nvidia_smi_log'') ''gpu'' = None \<and>
   (\<exists>g'. refreshAllData (example_env None no_gpu_xml (Some no_gpu_doc)) after_first_call =
      Inr g' \<and> g_gpuDataAvailable g')"
proof -
  have a: "getXmlGpuData (example_env None [] None) = Inr []"
    by (rule example_env_getXmlGpuData)
  have b: "getXmlGpuData (example_env None ''<nvidia_smi_log>'' None) = Inr ''<nvidia_smi_log>''"
    by (rule example_env_getXmlGpuData)
  have b': "load_string (example_env None ''<nvidia_smi_log>'' None) ''<nvidia_smi_log>'' = None"
    by (rule example_env_fields)
  have c: "getXmlGpuData (example_env None no_gpu_xml (Some no_gpu_doc)) = Inr no_gpu_xml"
    by (rule example_env_getXmlGpuData)
  have c': "load_string (example_env None no_gpu_xml (Some no_gpu_doc)) no_gpu_xml =
      Some no_gpu_doc"
    by (rule example_env_fields)
  show ?thesis
    using a b b' c c' no_gpu_xml_nonempty no_gpu_doc_child
      gpu_refresh_failure [of "example_env None [] None" invalid_argument "[]"
         after_first_call no_gpu_doc]
      gpu_refresh_failure [of "example_env None ''<nvidia_smi_log>'' None" invalid_argument
         "''<nvidia_smi_log>''" after_first_call no_gpu_doc]
      gpu_refresh_failure [of "example_env None no_gpu_xml (Some no_gpu_doc)" invalid_argument
         no_gpu_xml after_first_call no_gpu_doc]
    by blast
qed

text \<open>
  Claim C3, evaluated where the code departs from it. The claim: when the GPU record lacks
  sub-records or their children, \<^verbatim>\<open>parseGpuData\<close> does not fail and the numeric fields are
  zero. In \<open>no_total_doc\<close> the memory record has no \<^verbatim>\<open>total\<close>: the code tests the memory
  record only (it tests the leaf for the temperature), calls \<^verbatim>\<open>std::stoul\<close> on the empty
  text and leaves with \<^verbatim>\<open>std::invalid_argument\<close>. In \<open>name_only_doc\<close> the three sub-records
  are missing: the function returns, and the numeric fields hold what the uninitialised
  local held (7, 3/2, 5/2 and 9 here), not zero.
\<close>

theorem parseGpuData_missing_elements:
  "parseGpuData indeterminate_example (Some no_total_doc) = Inl invalid_argument \<and>
   parseGpuData indeterminate_example (Some name_only_doc) =
     Inr \<lparr> name = ''NVIDIA GeForce RTX 4090'', driverVersion = [], temperature = 7,
           memoryTotal = 3 / 2, memoryUsed = 5 / 2, utilizationGpu = 9 \<rparr>"
  by (simp add: parseGpuData_def no_total_doc_def name_only_doc_def indeterminate_example_def
      stoul_empty)

lemma double_of_ulong_of_nat:
  assumes "n < 2 ^ 32"
  shows "double_of_ulong (of_nat n) = of_nat n"
proof -
  have "unat (of_nat n :: 32 word) = n"
    using assms by (simp add: unat_of_nat)
  then show ?thesis
    unfolding double_of_ulong_def by (simp only:)
qed

lemma unat_of_nat_ulong:
  assumes "n < 2 ^ 32"
  shows "unat (of_nat n :: 32 word) = n"
  using assms by (simp add: unat_of_nat)

lemma not_applicable_xml_nonempty: "not_applicable_xml \<noteq> []"
  by (simp add: not_applicable_xml_def)

lemma parseGpuData_not_applicable:
  "parseGpuData indeterminate_example (Some not_applicable_doc) = Inl invalid_argument"
  by (simp add: parseGpuData_def not_applicable_doc_def indeterminate_example_def stoul_eval)

lemma refresh_cycle_not_applicable:
  "refreshAllData
     (example_env (Some (snapshot 130 260 50)) not_applicable_xml (Some not_applicable_doc))
     after_first_call = Inr after_cycle_not_applicable"
proof -
  have "refreshGpu
      (example_env (Some (snapshot 130 260 50)) not_applicable_xml (Some not_applicable_doc))
      g = g\<lparr> g_gpuDataAvailable := False \<rparr>" for g
    by (simp add: refreshGpu_def example_env_getXmlGpuData not_applicable_xml_nonempty
        example_env_fields parseGpuData_not_applicable)
  then show ?thesis
    by (simp add: refreshAllData_def example_env_fields cpu_example_50 example_env_ram
        cpu_ram_text_example gpu_text_unavailable)
       (simp add: after_first_call_eq after_cycle_not_applicable_def)
qed

text \<open>
  Claim C4, as the spec states it: every well-formed document that contains the GPU record
  with all fields present is parsed into a record with the raw values, and the flag is
  set. It fails when a field is present but its text is not a number. In
  \<open>not_applicable_doc\<close> all six elements are present and \<^verbatim>\<open>gpu_temp\<close> reads \<^verbatim>\<open>N/A\<close>, as the
  tool writes for a sensor it cannot read: \<^verbatim>\<open>std::stoul\<close> throws \<^verbatim>\<open>std::invalid_argument\<close>,
  \<^verbatim>\<open>parseGpuData\<close> fails, and the handler of \<^verbatim>\<open>refreshAllData\<close> clears the flag.
\<close>

theorem complete_document_counterexample:
  "field_text not_applicable_doc [''nvidia_smi_log'', ''gpu'', ''product_name''] =
     ''NVIDIA GeForce RTX 4090'' \<and>
   field_text not_applicable_doc [''nvidia_smi_log'', ''driver_version''] = ''551.23'' \<and>
   field_text not_applicable_doc [''nvidia_smi_log'', ''gpu'', ''temperature'', ''gpu_temp''] =
     ''N/A'' \<and>
   field_text not_applicable_doc [''nvidia_smi_log'', ''gpu'', ''fb_memory_usage'', ''total''] =
     ''24576 MiB'' \<and>
   field_text not_applicable_doc [''nvidia_smi_log'', ''gpu'', ''fb_memory_usage'', ''used''] =
     ''4096 MiB'' \<and>
   field_text not_applicable_doc [''nvidia_smi_log'', ''gpu'', ''utilization'', ''gpu_util''] =
     ''12 %'' \<and>
   parseGpuData indeterminate_example (Some not_applicable_doc) = Inl invalid_argument \<and>
   refreshAllData
     (example_env (Some (snapshot 130 260 50)) not_applicable_xml (Some not_applicable_doc))
     after_first_call = Inr after_cycle_not_applicable \<and>
   \<not> g_gpuDataAvailable after_cycle_not_applicable"
proof -
  have "\<not> g_gpuDataAvailable after_cycle_not_applicable"
    by (simp add: after_cycle_not_applicable_def)
  then show ?thesis
    by (simp add: parseGpuData_not_applicable refresh_cycle_not_applicable)
       (simp add: field_text_def not_applicable_doc_def)
qed

text \<open>
  Claim C4, amended: when the text of each of the four numeric fields (\<^verbatim>\<open>gpu_temp\<close>,
  \<^verbatim>\<open>total\<close>, \<^verbatim>\<open>used\<close>, \<^verbatim>\<open>gpu_util\<close>) is the decimal numeral of a number below \<open>2 ^ 32\<close>,
  followed by nothing or by a unit that does not begin with a digit, \<^verbatim>\<open>parseGpuData\<close>
  returns a record whose temperature and utilization are those numbers, whose memory values
  are those numbers divided by 1024, and whose name and driver version are the texts of
  their elements; a refresh that reads such a document stores that record and sets the
  flag. In particular, the document with \<^verbatim>\<open>gpu_temp\<close> 65, \<^verbatim>\<open>total\<close> 24576, \<^verbatim>\<open>used\<close> 4096 and
  \<^verbatim>\<open>gpu_util\<close> 12 is rendered with the lines \<^verbatim>\<open>Temp: 65 C\<close>, \<^verbatim>\<open>VRAM: 4.00 GB / 24.00 GB\<close>
  and \<^verbatim>\<open>GPU Util: 12 %\<close>.
\<close>

theorem complete_document_parsed:
  "(field_text doc [''nvidia_smi_log'', ''gpu'', ''temperature'', ''gpu_temp''] =
      to_string_nat t @ t_unit \<and>
    field_text doc [''nvidia_smi_log'', ''gpu'', ''fb_memory_usage'', ''total''] =
      to_string_nat mt @ mt_unit \<and>
    field_text doc [''nvidia_smi_log'', ''gpu'', ''fb_memory_usage'', ''used''] =
      to_string_nat mu @ mu_unit \<and>
    field_text doc [''nvidia_smi_log'', ''gpu'', ''utilization'', ''gpu_util''] =
      to_string_nat u @ u_unit \<and>
    t < 2 ^ 32 \<and> mt < 2 ^ 32 \<and> mu < 2 ^ 32 \<and> u < 2 ^ 32 \<and>
    (t_unit = [] \<or> \<not> isdigit (hd t_unit)) \<and> (mt_unit = [] \<or> \<not> isdigit (hd mt_unit)) \<and>
    (mu_unit = [] \<or> \<not> isdigit (hd mu_unit)) \<and> (u_unit = [] \<or> \<not> isdigit (hd u_unit)) \<and>
    getXmlGpuData env = Inr out \<and> out \<noteq> [] \<and> load_string env out = Some doc
    \<longrightarrow>
    (\<exists>d. parseGpuData (uninitialized env) (Some doc) = Inr d \<and>
        unat (temperature d) = t \<and> unat (utilizationGpu d) = u \<and>
        memoryTotal d = of_nat mt / 1024 \<and>
        memoryUsed d = of_nat mu / 1024 \<and>
        name d = field_text doc [''nvidia_smi_log'', ''gpu'', ''product_name''] \<and>
        driverVersion d = field_text doc [''nvidia_smi_log'', ''driver_version''] \<and>
        (\<exists>g'. refreshAllData env g = Inr g' \<and> g_gpuDataAvailable g' \<and> g_gpuData g' = d))) \<and>
   field_text full_doc [''nvidia_smi_log'', ''gpu'', ''temperature'', ''gpu_temp''] = ''65 C'' \<and>
   field_text full_doc [''nvidia_smi_log'', ''gpu'', ''fb_memory_usage'', ''total''] =
     ''24576 MiB'' \<and>
   field_text full_doc [''nvidia_smi_log'', ''gpu'', ''fb_memory_usage'', ''used''] =
     ''4096 MiB'' \<and>
   field_text full_doc [''nvidia_smi_log'', ''gpu'', ''utilization'', ''gpu_util''] = ''12 %'' \<and>
   refreshAllData (example_env (Some (snapshot 130 260 50)) full_xml (Some full_doc))
     after_first_call =
     Inr \<lparr> g_statsText =
             ''CPU Usage: 50.00%'' @ [newline] @ ''RAM Usage: 8.00 GB'' @ [newline] @
             [newline] @ ''--- GPU Stats ---'' @ [newline] @
             ''GPU: NVIDIA GeForce RTX 4090'' @ [newline] @ ''Temp: 65 C'' @ [newline] @
             ''VRAM: 4.00 GB / 24.00 GB'' @ [newline] @ ''GPU Util: 12 %'',
           g_gpuDataAvailable = True,
           previousIdleTime = 130,
           previousKernelTime = 260,
           previousUserTime = 50,
           firstCall = False,
           g_gpuData = \<lparr> name = ''NVIDIA GeForce RTX 4090'', driverVersion = ''551.23'',
             temperature = 65, memoryTotal = 24576 / 1024, memoryUsed = 4096 / 1024,
             utilizationGpu = 12 \<rparr>,
           timerSet = False \<rparr>"
proof (intro conjI impI)
  assume a: "field_text doc [''nvidia_smi_log'', ''gpu'', ''temperature'', ''gpu_temp''] =
      to_string_nat t @ t_unit \<and>
    field_text doc [''nvidia_smi_log'', ''gpu'', ''fb_memory_usage'', ''total''] =
      to_string_nat mt @ mt_unit \<and>
    field_text doc [''nvidia_smi_log'', ''gpu'', ''fb_memory_usage'', ''used''] =
      to_string_nat mu @ mu_unit \<and>
    field_text doc [''nvidia_smi_log'', ''gpu'', ''utilization'', ''gpu_util''] =
      to_string_nat u @ u_unit \<and>
    t < 2 ^ 32 \<and> mt < 2 ^ 32 \<and> mu < 2 ^ 32 \<and> u < 2 ^ 32 \<and>
    (t_unit = [] \<or> \<not> isdigit (hd t_unit)) \<and> (mt_unit = [] \<or> \<not> isdigit (hd mt_unit)) \<and>
    (mu_unit = [] \<or> \<not> isdigit (hd mu_unit)) \<and> (u_unit = [] \<or> \<not> isdigit (hd u_unit)) \<and>
    getXmlGpuData env = Inr out \<and> out \<noteq> [] \<and> load_string env out = Some doc"
  have st: "stoul (field_text doc [''nvidia_smi_log'', ''gpu'', ''temperature'', ''gpu_temp'']) =
      Inr (of_nat t)"
    using a by (simp add: stoul_decimal)
  have smt: "stoul (field_text doc [''nvidia_smi_log'', ''gpu'', ''fb_memory_usage'', ''total'']) =
      Inr (of_nat mt)"
    using a by (simp add: stoul_decimal)
  have smu: "stoul (field_text doc [''nvidia_smi_log'', ''gpu'', ''fb_memory_usage'', ''used'']) =
      Inr (of_nat mu)"
    using a by (simp add: stoul_decimal)
  have su: "stoul (field_text doc [''nvidia_smi_log'', ''gpu'', ''utilization'', ''gpu_util'']) =
      Inr (of_nat u)"
    using a by (simp add: stoul_decimal)
  define d where "d =
     \<lparr> name = field_text doc [''nvidia_smi_log'', ''gpu'', ''product_name''],
       driverVersion = field_text doc [''nvidia_smi_log'', ''driver_version''],
       temperature = of_nat t,
       memoryTotal = double_of_ulong (of_nat mt) / 1024,
       memoryUsed = double_of_ulong (of_nat mu) / 1024,
       utilizationGpu = of_nat u \<rparr>"
  have p: "parseGpuData (uninitialized env) (Some doc) = Inr d"
    unfolding d_def by (rule parseGpuData_complete [OF st smt smu su])
  have fields: "unat (temperature d) = t" "unat (utilizationGpu d) = u"
    "memoryTotal d = of_nat mt / 1024" "memoryUsed d = of_nat mu / 1024"
    using a by (simp_all add: d_def unat_of_nat_ulong double_of_ulong_of_nat)
  obtain c g1 where r: "refreshAllData env g =
       Inr ((refreshGpu env g1)
         \<lparr> g_statsText := take 1023
             (cpu_ram_text c (getCurrentRamUsage (GlobalMemoryStatusEx env)) @
              gpu_text (g_gpuDataAvailable (refreshGpu env g1))
                (g_gpuData (refreshGpu env g1))) \<rparr>)"
    by (rule refreshAllData_result)
  have "refreshGpu env g1 = g1\<lparr> g_gpuData := d, g_gpuDataAvailable := True \<rparr>"
    using a p by (intro refreshGpu_parsed [of env out doc]) simp_all
  then have "\<exists>g'. refreshAllData env g = Inr g' \<and> g_gpuDataAvailable g' \<and> g_gpuData g' = d"
    using r by simp
  then show "\<exists>d. parseGpuData (uninitialized env) (Some doc) = Inr d \<and>
        unat (temperature d) = t \<and> unat (utilizationGpu d) = u \<and>
        memoryTotal d = of_nat mt / 1024 \<and>
        memoryUsed d = of_nat mu / 1024 \<and>
        name d = field_text doc [''nvidia_smi_log'', ''gpu'', ''product_name''] \<and>
        driverVersion d = field_text doc [''nvidia_smi_log'', ''driver_version''] \<and>
        (\<exists>g'. refreshAllData env g = Inr g' \<and> g_gpuDataAvailable g' \<and> g_gpuData g' = d)"
    using p fields by (intro exI [of _ d]) (simp add: d_def)
next
  show "field_text full_doc [''nvidia_smi_log'', ''gpu'', ''temperature'', ''gpu_temp''] =
      ''65 C''"
    by (simp add: field_text_def full_doc_def)
  show "field_text full_doc [''nvidia_smi_log'', ''gpu'', ''fb_memory_usage'', ''total''] =
      ''24576 MiB''"
    by (simp add: field_text_def full_doc_def)
  show "field_text full_doc [''nvidia_smi_log'', ''gpu'', ''fb_memory_usage'', ''used''] =
      ''4096 MiB''"
    by (simp add: field_text_def full_doc_def)
  show "field_text full_doc [''nvidia_smi_log'', ''gpu'', ''utilization'', ''gpu_util''] =
      ''12 %''"
    by (simp add: field_text_def full_doc_def)
  show "refreshAllData (example_env (Some (snapshot 130 260 50)) full_xml (Some full_doc))
     after_first_call =
     Inr \<lparr> g_statsText =
             ''CPU Usage: 50.00%'' @ [newline] @ ''RAM Usage: 8.00 GB'' @ [newline] @
             [newline] @ ''--- GPU Stats ---'' @ [newline] @
             ''GPU: NVIDIA GeForce RTX 4090'' @ [newline] @ ''Temp: 65 C'' @ [newline] @
             ''VRAM: 4.00 GB / 24.00 GB'' @ [newline] @ ''GPU Util: 12 %'',
           g_gpuDataAvailable = True,
           previousIdleTime = 130,
           previousKernelTime = 260,
           previousUserTime = 50,
           firstCall = False,
           g_gpuData = \<lparr> name = ''NVIDIA GeForce RTX 4090'', driverVersion = ''551.23'',
             temperature = 65, memoryTotal = 24576 / 1024, memoryUsed = 4096 / 1024,
             utilizationGpu = 12 \<rparr>,
           timerSet = False \<rparr>"
    by (simp add: refresh_good_cycle) (simp add: after_good_cycle_def full_gpu_data_def)
qed

theorem complete_document_parsed_witness:
  "field_text full_doc [''nvidia_smi_log'', ''gpu'', ''temperature'', ''gpu_temp''] =
     to_string_nat 65 @ '' C'' \<and>
   field_text full_doc [''nvidia_smi_log'', ''gpu'', ''fb_memory_usage'', ''total''] =
     to_string_nat 24576 @ '' MiB'' \<and>
   field_text full_doc [''nvidia_smi_log'', ''gpu'', ''fb_memory_usage'', ''used''] =
     to_string_nat 4096 @ '' MiB'' \<and>
   field_text full_doc [''nvidia_smi_log'', ''gpu'', ''utilization'', ''gpu_util''] =
     to_string_nat 12 @ '' %'' \<and>
   (65 :: nat) < 2 ^ 32 \<and> (24576 :: nat) < 2 ^ 32 \<and> (4096 :: nat) < 2 ^ 32 \<and>
   (12 :: nat) < 2 ^ 32 \<and>
   \<not> isdigit (hd '' C'') \<and> \<not> isdigit (hd '' MiB'') \<and> \<not> isdigit (hd '' %'') \<and>
   getXmlGpuData (example_env None full_xml (Some full_doc)) = Inr full_xml \<and>
   full_xml \<noteq> [] \<and>
   load_string (example_env None full_xml (Some full_doc)) full_xml = Some full_doc \<and>
   (\<exists>d. parseGpuData (uninitialized (example_env None full_xml (Some full_doc)))
          (Some full_doc) = Inr d \<and>
        unat (temperature d) = 65 \<and> unat (utilizationGpu d) = 12 \<and>
        memoryTotal d = 24 \<and> memoryUsed d = 4 \<and>
        name d = ''NVIDIA GeForce RTX 4090'' \<and> driverVersion d = ''551.23'' \<and>
        (\<exists>g'. refreshAllData (example_env None full_xml (Some full_doc)) after_first_call =
           Inr g' \<and> g_gpuDataAvailable g' \<and> g_gpuData g' = d))"
proof -
  have t: "field_text full_doc [''nvidia_smi_log'', ''gpu'', ''temperature'', ''gpu_temp''] =
     to_string_nat 65 @ '' C''"
    by (simp add: field_text_def full_doc_def format_eval)
  have mt: "field_text full_doc [''nvidia_smi_log'', ''gpu'', ''fb_memory_usage'', ''total''] =
     to_string_nat 24576 @ '' MiB''"
    by (simp add: field_text_def full_doc_def format_eval)
  have mu: "field_text full_doc [''nvidia_smi_log'', ''gpu'', ''fb_memory_usage'', ''used''] =
     to_string_nat 4096 @ '' MiB''"
    by (simp add: field_text_def full_doc_def format_eval)
  have u: "field_text full_doc [''nvidia_smi_log'', ''gpu'', ''utilization'', ''gpu_util''] =
     to_string_nat 12 @ '' %''"
    by (simp add: field_text_def full_doc_def format_eval)
  have b: "(65 :: nat) < 2 ^ 32" "(24576 :: nat) < 2 ^ 32" "(4096 :: nat) < 2 ^ 32"
    "(12 :: nat) < 2 ^ 32"
    by simp_all
  have nd: "\<not> isdigit (hd '' C'')" "\<not> isdigit (hd '' MiB'')" "\<not> isdigit (hd '' %'')"
    by (simp_all add: isdigit_def)
  have x: "getXmlGpuData (example_env None full_xml (Some full_doc)) = Inr full_xml"
    by (rule example_env_getXmlGpuData)
  have l: "load_string (example_env None full_xml (Some full_doc)) full_xml = Some full_doc"
    by (rule example_env_fields)
  have n: "field_text full_doc [''nvidia_smi_log'', ''gpu'', ''product_name''] =
      ''NVIDIA GeForce RTX 4090''"
    by (simp add: field_text_def full_doc_def)
  have v: "field_text full_doc [''nvidia_smi_log'', ''driver_version''] = ''551.23''"
    by (simp add: field_text_def full_doc_def)
  have m: "(of_nat 24576 :: rat) / 1024 = 24" "(of_nat 4096 :: rat) / 1024 = 4"
    by simp_all
  have "\<exists>d. parseGpuData (uninitialized (example_env None full_xml (Some full_doc)))
          (Some full_doc) = Inr d \<and>
        unat (temperature d) = 65 \<and> unat (utilizationGpu d) = 12 \<and>
        memoryTotal d = 24 \<and> memoryUsed d = 4 \<and>
        name d = ''NVIDIA GeForce RTX 4090'' \<and> driverVersion d = ''551.23'' \<and>
        (\<exists>g'. refreshAllData (example_env None full_xml (Some full_doc)) after_first_call =
           Inr g' \<and> g_gpuDataAvailable g' \<and> g_gpuData g' = d)"
    using complete_document_parsed [of full_doc 65 "'' C''" 24576 "'' MiB''" 4096 "'' MiB''"
        12 "'' %''" "example_env None full_xml (Some full_doc)" full_xml after_first_call]
      t mt mu u b nd x l full_xml_nonempty
    unfolding n v m by blast
  then show ?thesis
    using t mt mu u b nd x l full_xml_nonempty by blast
qed

text \<open>
  Claim C5, as the spec states it: a failed cycle discards the stored GPU metrics, which
  never survive it. It fails: a failed cycle assigns the flag only. After a cycle that
  stored the metrics of the complete document, a cycle with empty output leaves
  \<^verbatim>\<open>g_gpuData\<close> as it was, temperature 65 included.
\<close>

theorem gpu_metrics_discarded_counterexample:
  "refreshAllData (example_env (Some (snapshot 130 260 50)) full_xml (Some full_doc))
     after_first_call = Inr after_good_cycle \<and>
   refreshAllData (example_env (Some (snapshot 160 320 50)) [] None) after_good_cycle =
     Inr after_failed_cycle \<and>
   \<not> g_gpuDataAvailable after_failed_cycle \<and>
   g_gpuData after_failed_cycle = g_gpuData after_good_cycle \<and>
   temperature (g_gpuData after_failed_cycle) = 65"
  by (simp add: refresh_good_cycle refresh_failed_cycle)
     (simp add: after_good_cycle_def after_failed_cycle_def full_gpu_data_def)

text \<open>
  Claim C5, amended: every refresh cycle returns, and either it sets the flag and the
  stored record is as a whole the record that \<^verbatim>\<open>parseGpuData\<close> returned for the document of
  this cycle (no field of the previous record is kept), or it clears the flag, leaves the
  stored record as it was, and writes the message of unavailability in place of any
  metrics: the previous metrics stay in memory and are not displayed.
\<close>

theorem gpu_metrics_replaced_or_hidden:
  "\<exists>g'. refreshAllData env g = Inr g' \<and>
     ((g_gpuDataAvailable g' \<and>
       (\<exists>out doc. getXmlGpuData env = Inr out \<and> out \<noteq> [] \<and> load_string env out = Some doc \<and>
          parseGpuData (uninitialized env) (Some doc) = Inr (g_gpuData g'))) \<or>
      (\<not> g_gpuDataAvailable g' \<and> g_gpuData g' = g_gpuData g \<and>
       (\<exists>cpuUsage. g_statsText g' = take 1023
          (cpu_ram_text cpuUsage (getCurrentRamUsage (GlobalMemoryStatusEx env)) @
           [newline] @ ''--- GPU Stats ---'' @ [newline] @
           ''GPU data not available or initializing...''))))"
proof -
  obtain c g1 where c: "getCurrentCpuUsage (GetSystemTimes env) g = (Inr c, g1)"
    and r: "refreshAllData env g =
       Inr ((refreshGpu env g1)
         \<lparr> g_statsText := take 1023
             (cpu_ram_text c (getCurrentRamUsage (GlobalMemoryStatusEx env)) @
              gpu_text (g_gpuDataAvailable (refreshGpu env g1))
                (g_gpuData (refreshGpu env g1))) \<rparr>)"
    by (rule refreshAllData_result)
  have g1: "g_gpuData g1 = g_gpuData g"
    using getCurrentCpuUsage_gpu_fields(1) [of "GetSystemTimes env" g] c by simp
  consider (parsed) out doc d where "getXmlGpuData env = Inr out" "out \<noteq> []"
      "load_string env out = Some doc" "parseGpuData (uninitialized env) (Some doc) = Inr d"
      "refreshGpu env g1 = g1\<lparr> g_gpuData := d, g_gpuDataAvailable := True \<rparr>"
    | (failed) "refreshGpu env g1 = g1\<lparr> g_gpuDataAvailable := False \<rparr>"
    using refreshGpu_cases [of env g1] by blast
  then show ?thesis
  proof cases
    case parsed
    then show ?thesis
      using r by (intro exI [of _ "(refreshGpu env g1)
         \<lparr> g_statsText := take 1023
             (cpu_ram_text c (getCurrentRamUsage (GlobalMemoryStatusEx env)) @
              gpu_text (g_gpuDataAvailable (refreshGpu env g1))
                (g_gpuData (refreshGpu env g1))) \<rparr>"]) auto
  next
    case failed
    show ?thesis
      using r g1 unfolding failed
      by (intro exI [of _ "(g1\<lparr> g_gpuDataAvailable := False \<rparr>)
         \<lparr> g_statsText := take 1023
             (cpu_ram_text c (getCurrentRamUsage (GlobalMemoryStatusEx env)) @
              gpu_text (g_gpuDataAvailable (g1\<lparr> g_gpuDataAvailable := False \<rparr>))
                (g_gpuData (g1\<lparr> g_gpuDataAvailable := False \<rparr>))) \<rparr>"])
         (auto simp add: gpu_text_unavailable simp del: take_append)
  qed
qed

section \<open>Properties of tool discovery\<close>

lemma find_append:
  "find P (xs @ ys) = (case find P xs of Some x \<Rightarrow> Some x | None \<Rightarrow> find P ys)"
  by (induction xs) simp_all

lemma in_directory_nonempty: "exeName \<noteq> [] \<Longrightarrow> in_directory dir exeName \<noteq> []"
  by (simp add: in_directory_def)

lemma findInPath_loop_find:
  "findInPath_loop env exeName dirs =
     (case find (fileExists env) (map (\<lambda>dir. in_directory dir exeName) dirs) of
        Some p \<Rightarrow> p
      | None \<Rightarrow> [])"
  by (induction dirs) (simp_all add: in_directory_def Let_def)

lemma find_map_in_directory_nonempty:
  assumes "find P (map (\<lambda>dir. in_directory dir exeName) dirs) = Some p" "exeName \<noteq> []"
  shows "p \<noteq> []"
proof -
  have "p \<in> set (map (\<lambda>dir. in_directory dir exeName) dirs)"
    using assms(1) by (auto simp add: find_Some_iff)
  then show ?thesis
    using in_directory_nonempty [OF assms(2)] by auto
qed

lemma findInPath_find:
  "findInPath env ''nvidia-smi.exe'' =
     (case find (fileExists env) (PATH_candidates env) of Some p \<Rightarrow> p | None \<Rightarrow> [])"
  by (simp add: findInPath_def PATH_candidates_def findInPath_loop_find split: option.splits)

lemma PATH_candidate_nonempty:
  assumes "find (fileExists env) (PATH_candidates env) = Some p"
  shows "p \<noteq> []"
proof (cases "envPATH env")
  case None
  then show ?thesis
    using assms by (simp add: PATH_candidates_def)
next
  case (Some envPath)
  then show ?thesis
    using assms find_map_in_directory_nonempty [of "fileExists env" "''nvidia-smi.exe''"]
    by (simp add: PATH_candidates_def)
qed

lemma getNVSMIPathFromRegistry_find:
  "getNVSMIPathFromRegistry env =
     (case find (fileExists env) (registry_candidates env) of Some p \<Rightarrow> p | None \<Rightarrow> [])"
  by (simp add: getNVSMIPathFromRegistry_def registry_candidates_def in_directory_def Let_def
      split: option.splits)

lemma registry_candidate_nonempty:
  assumes "find (fileExists env) (registry_candidates env) = Some p"
  shows "p \<noteq> []"
  using assms in_directory_nonempty [of "''nvidia-smi.exe''"]
  by (auto simp add: registry_candidates_def split: option.splits if_splits)

lemma getNVSMIPath_first_existing: "getNVSMIPath env = first_existing_candidate env"
proof (cases "find (fileExists env) (registry_candidates env)")
  case (Some p)
  then show ?thesis
    using registry_candidate_nonempty [OF Some]
    by (simp add: getNVSMIPath_def getNVSMIPathFromRegistry_find first_existing_candidate_def
        discovery_candidates_def find_append)
next
  case reg: None
  show ?thesis
  proof (cases "find (fileExists env) commonPaths")
    case (Some p)
    then show ?thesis
      using reg
      by (simp add: getNVSMIPath_def getNVSMIPathFromRegistry_find first_existing_candidate_def
          discovery_candidates_def find_append)
  next
    case common: None
    have path: "(let path = findInPath env ''nvidia-smi.exe''
                 in if path \<noteq> [] then path else ''nvidia-smi.exe'') =
       (case find (fileExists env) (PATH_candidates env) of
          Some p \<Rightarrow> p | None \<Rightarrow> ''nvidia-smi.exe'')"
      using PATH_candidate_nonempty [of env]
      by (simp add: findInPath_find Let_def split: option.splits)
    show ?thesis
      unfolding getNVSMIPath_def path
      using reg common
      by (simp add: getNVSMIPathFromRegistry_find first_existing_candidate_def
          discovery_candidates_def find_append exe_directory_candidates_def Let_def
          split: option.splits)
  qed
qed

text \<open>
  Claim C6. \<^verbatim>\<open>getNVSMIPath\<close> returns the first candidate that exists, in the order registry
  path, well-known install paths, directory of the executable, directories of \<^verbatim>\<open>PATH\<close>, and
  the bare name of the executable when none exists. In particular, when the registry entry
  yields an existing file, that path is returned whatever else exists on disk.
\<close>

theorem tool_discovery_priority:
  "getNVSMIPath env = first_existing_candidate env \<and>
   (registryPath env = Some v \<and> fileExists env (in_directory v ''nvidia-smi.exe'') \<longrightarrow>
      getNVSMIPath env = in_directory v ''nvidia-smi.exe'')"
proof (intro conjI impI)
  show "getNVSMIPath env = first_existing_candidate env"
    by (rule getNVSMIPath_first_existing)
next
  assume "registryPath env = Some v \<and> fileExists env (in_directory v ''nvidia-smi.exe'')"
  then show "getNVSMIPath env = in_directory v ''nvidia-smi.exe''"
    using in_directory_nonempty [of "''nvidia-smi.exe''" v]
    by (simp add: getNVSMIPath_def getNVSMIPathFromRegistry_def in_directory_def Let_def)
qed

theorem tool_discovery_priority_witness:
  "registryPath registry_env = Some (''C:'' @ [backslash] @ ''NVSMI'') \<and>
   fileExists registry_env (in_directory (''C:'' @ [backslash] @ ''NVSMI'') ''nvidia-smi.exe'') \<and>
   fileExists registry_env (hd commonPaths) \<and>
   discovery_candidates registry_env =
     [''C:'' @ [backslash] @ ''NVSMI'' @ [backslash] @ ''nvidia-smi.exe''] @ commonPaths @
     [''C:'' @ [backslash] @ ''tools'' @ [backslash] @ ''nvidia-smi.exe'',
      ''C:'' @ [backslash] @ ''Windows'' @ [backslash] @ ''nvidia-smi.exe'',
      ''C:'' @ [backslash] @ ''bin'' @ [backslash] @ ''nvidia-smi.exe''] \<and>
   getNVSMIPath registry_env = ''C:'' @ [backslash] @ ''NVSMI'' @ [backslash] @ ''nvidia-smi.exe''"
proof -
  have a: "registryPath registry_env = Some (''C:'' @ [backslash] @ ''NVSMI'')"
    by (simp add: registry_env_def)
  have b: "fileExists registry_env
      (in_directory (''C:'' @ [backslash] @ ''NVSMI'') ''nvidia-smi.exe'')"
    by (simp add: registry_env_def fileExists_def)
  have c: "fileExists registry_env (hd commonPaths)"
    by (simp add: registry_env_def fileExists_def)
  have d: "discovery_candidates registry_env =
     [''C:'' @ [backslash] @ ''NVSMI'' @ [backslash] @ ''nvidia-smi.exe''] @ commonPaths @
     [''C:'' @ [backslash] @ ''tools'' @ [backslash] @ ''nvidia-smi.exe'',
      ''C:'' @ [backslash] @ ''Windows'' @ [backslash] @ ''nvidia-smi.exe'',
      ''C:'' @ [backslash] @ ''bin'' @ [backslash] @ ''nvidia-smi.exe'']"
    by (simp add: discovery_candidates_def registry_candidates_def exe_directory_candidates_def
        PATH_candidates_def registry_env_def in_directory_def find_last_of_def)
  have e: "in_directory (''C:'' @ [backslash] @ ''NVSMI'') ''nvidia-smi.exe'' =
      ''C:'' @ [backslash] @ ''NVSMI'' @ [backslash] @ ''nvidia-smi.exe''"
    by (simp add: in_directory_def)
  show ?thesis
    using a b c d tool_discovery_priority [of registry_env "''C:'' @ [backslash] @ ''NVSMI''"]
    unfolding e by blast
qed

section \<open>Properties of the display text\<close>

lemma isdigit_not_point: "isdigit c \<Longrightarrow> c \<noteq> CHR ''.''"
  by (auto simp add: isdigit_def)

lemma to_string_nat_no_point: "CHR ''.'' \<notin> set (to_string_nat n)"
  using to_string_nat_digits [of n] isdigit_not_point
  by (auto simp add: list_all_iff)

lemma to_string_nat_length:
  "n < 10 ^ d \<Longrightarrow> 0 < d \<Longrightarrow> length (to_string_nat n) \<le> d"
proof (induction d arbitrary: n)
  case 0
  then show ?case by simp
next
  case (Suc d)
  show ?case
  proof (cases "n < 10")
    case True
    then show ?thesis
      by (simp add: to_string_nat_small)
  next
    case False
    then have d: "0 < d"
      using Suc.prems(1) by (cases d) simp_all
    have "n div 10 < 10 ^ d"
      using Suc.prems(1) by (simp add: less_mult_imp_div_less mult.commute)
    then have "length (to_string_nat (n div 10)) \<le> d"
      using Suc.IH d by simp
    then show ?thesis
      using False by (simp add: to_string_nat_large)
  qed
qed

lemma fixed2_two_decimals: "two_decimals (fixed2 x)"
  by (simp add: two_decimals_def fixed2_def Let_def digit_char_isdigit to_string_nat_nonempty
      to_string_nat_no_point)

lemma round_half_even_le: "round_half_even y \<le> \<lfloor>y\<rfloor> + 1"
  by (simp add: round_half_even_def Let_def)

lemma fixed2_length:
  assumes "0 \<le> x" "x \<le> of_nat B" "B < 10 ^ d" "0 < d"
  shows "length (fixed2 x) \<le> d + 3"
proof -
  define n where "n = nat (round_half_even (\<bar>x\<bar> * 100))"
  have "\<bar>x\<bar> * 100 \<le> of_nat (B * 100)"
    using assms(1,2) by simp
  then have "\<lfloor>\<bar>x\<bar> * 100\<rfloor> \<le> int (B * 100)"
    by (metis floor_mono floor_of_nat)
  then have "round_half_even (\<bar>x\<bar> * 100) \<le> int (B * 100) + 1"
    using round_half_even_le [of "\<bar>x\<bar> * 100"] by linarith
  then have "n \<le> B * 100 + 1"
    unfolding n_def by linarith
  then have "n div 100 \<le> B"
    by arith
  then have "n div 100 < 10 ^ d"
    using assms(3) by simp
  then have "length (to_string_nat (n div 100)) \<le> d"
    using assms(4) by (rule to_string_nat_length)
  then show ?thesis
    unfolding n_def using assms(1) by (simp add: fixed2_def Let_def)
qed

lemma percentage_le_100:
  fixes q :: rat
  assumes "0 \<le> q"
  shows "(1 - q) * 100 \<le> 100"
  using assms by simp

lemma getCurrentCpuUsage_le_100:
  assumes "fst (getCurrentCpuUsage st g) = Inr v"
  shows "v \<le> 100"
proof (cases st)
  case None
  then show ?thesis
    using assms by (simp add: getCurrentCpuUsage_failed)
next
  case (Some t)
  show ?thesis
  proof (cases "firstCall g")
    case True
    then show ?thesis
      using assms Some by (simp add: getCurrentCpuUsage_first)
  next
    case False
    show ?thesis
    proof (cases "kernelTimeDelta t g + userTimeDelta t g = 0")
      case True
      then show ?thesis
        using assms Some False by (simp add: getCurrentCpuUsage_later)
    next
      case nz: False
      let ?q = "double_of_ull (idleTimeDelta t g) /
                 double_of_ull (kernelTimeDelta t g + userTimeDelta t g)"
      have "0 \<le> ?q"
        using double_of_ull_nonneg [of "idleTimeDelta t g"] double_of_ull_pos [OF nz] by simp
      then have "(1 - ?q) * 100 \<le> 100"
        by (rule percentage_le_100)
      then show ?thesis
        using assms Some False nz by (simp add: getCurrentCpuUsage_later)
    qed
  qed
qed

lemma getCurrentRamUsage_bounds:
  "0 \<le> getCurrentRamUsage m \<and> getCurrentRamUsage m \<le> of_nat 17179869184"
proof -
  let ?w = "ullTotalPhys m - ullAvailPhys m"
  have "unat ?w < 2 ^ 64"
    using unsigned_less [of ?w, where ?'a = nat] by simp
  then have "unat ?w \<le> 17179869184 * 1073741824"
    by simp
  then have "(of_nat (unat ?w) :: rat) \<le> of_nat (17179869184 * 1073741824)"
    by (simp only: of_nat_le_iff)
  then have "double_of_ull ?w / (1024 * 1024 * 1024) \<le> of_nat 17179869184"
    unfolding double_of_ull_def by simp
  moreover have "0 \<le> double_of_ull ?w / (1024 * 1024 * 1024)"
    using double_of_ull_nonneg [of ?w] by simp
  ultimately show ?thesis
    by (simp add: getCurrentRamUsage_def Let_def)
qed

lemma cpu_ram_text_length:
  assumes "c \<le> 100" "0 \<le> r" "r \<le> of_nat 17179869184"
  shows "length (cpu_ram_text c r) \<le> 48"
proof (cases "0 \<le> c")
  case True
  have "c \<le> of_nat 100"
    using assms(1) by simp
  then have a: "length (fixed2 c) \<le> 3 + 3"
    using True by (intro fixed2_length [of c 100 3]) simp_all
  have b: "length (fixed2 r) \<le> 11 + 3"
    using assms(2,3) by (intro fixed2_length [of r 17179869184 11]) simp_all
  show ?thesis
    using True a b by (simp add: cpu_ram_text_def)
next
  case False
  then show ?thesis
    by (simp add: cpu_ram_text_def)
qed

text \<open>
  Claim C8, as the spec states it: the display text uses two decimal places for all
  numeric fields. It fails for the temperature and the utilization: they are members of
  type \<^verbatim>\<open>unsigned int\<close>, which \<^verbatim>\<open>std::fixed\<close> and \<^verbatim>\<open>std::setprecision\<close> do not affect. The
  cycle that reads the complete document writes \<^verbatim>\<open>Temp: 65 C\<close> and \<^verbatim>\<open>GPU Util: 12 %\<close>, where
  the claim asks for \<^verbatim>\<open>65.00\<close> and \<^verbatim>\<open>12.00\<close>.
\<close>

theorem display_two_decimals_counterexample:
  "refreshAllData (example_env (Some (snapshot 130 260 50)) full_xml (Some full_doc))
     after_first_call = Inr after_good_cycle \<and>
   g_statsText after_good_cycle =
     ''CPU Usage: 50.00%'' @ [newline] @ ''RAM Usage: 8.00 GB'' @ [newline] @
     gpu_text True full_gpu_data \<and>
   gpu_text True full_gpu_data =
     [newline] @ ''--- GPU Stats ---'' @ [newline] @
     ''GPU: NVIDIA GeForce RTX 4090'' @ [newline] @ ''Temp: 65 C'' @ [newline] @
     ''VRAM: 4.00 GB / 24.00 GB'' @ [newline] @ ''GPU Util: 12 %'' \<and>
   gpu_text_all_two_decimals full_gpu_data =
     [newline] @ ''--- GPU Stats ---'' @ [newline] @
     ''GPU: NVIDIA GeForce RTX 4090'' @ [newline] @ ''Temp: 65.00 C'' @ [newline] @
     ''VRAM: 4.00 GB / 24.00 GB'' @ [newline] @ ''GPU Util: 12.00 %'' \<and>
   to_string_uint (temperature full_gpu_data) = ''65'' \<and>
   \<not> two_decimals (to_string_uint (temperature full_gpu_data)) \<and>
   to_string_uint (utilizationGpu full_gpu_data) = ''12'' \<and>
   \<not> two_decimals (to_string_uint (utilizationGpu full_gpu_data))"
proof -
  have a: "gpu_text_all_two_decimals full_gpu_data =
     [newline] @ ''--- GPU Stats ---'' @ [newline] @
     ''GPU: NVIDIA GeForce RTX 4090'' @ [newline] @ ''Temp: 65.00 C'' @ [newline] @
     ''VRAM: 4.00 GB / 24.00 GB'' @ [newline] @ ''GPU Util: 12.00 %''"
    by (simp add: gpu_text_all_two_decimals_def full_gpu_data_def double_of_ulong_def format_eval)
  have b: "to_string_uint (temperature full_gpu_data) = ''65''"
    "to_string_uint (utilizationGpu full_gpu_data) = ''12''"
    by (simp_all add: full_gpu_data_def format_eval)
  have c: "\<not> two_decimals ''65''" "\<not> two_decimals ''12''"
    by (simp_all add: two_decimals_def)
  have d: "g_statsText after_good_cycle =
     ''CPU Usage: 50.00%'' @ [newline] @ ''RAM Usage: 8.00 GB'' @ [newline] @
     gpu_text True full_gpu_data"
    by (simp add: gpu_text_full_gpu_data) (simp add: after_good_cycle_def)
  show ?thesis
    using a c d refresh_good_cycle gpu_text_full_gpu_data unfolding b by blast
qed

text \<open>
  Claim C8, amended: every refresh returns, and its display text is the first 1023
  characters of three parts. First the CPU/RAM block: the two lines with the CPU usage and
  the RAM usage when the CPU value is not negative, the error line otherwise. Then the
  header of the GPU block. Then the GPU lines when the flag is set, the message of
  unavailability otherwise. The first two parts and the message always fit in the buffer,
  so they are always present in full. The four floating-point fields (CPU usage, RAM usage,
  memory used, memory total) are written with two decimal places; the two integer fields
  (temperature, utilization) are written as plain decimal digits.
\<close>

theorem display_text_blocks:
  "\<exists>g' cpuUsage.
     refreshAllData env g = Inr g' \<and>
     fst (getCurrentCpuUsage (GetSystemTimes env) g) = Inr cpuUsage \<and>
     g_statsText g' = take 1023
       ((if 0 \<le> cpuUsage then
           ''CPU Usage: '' @ fixed2 cpuUsage @ ''%'' @ [newline] @
           ''RAM Usage: '' @ fixed2 (getCurrentRamUsage (GlobalMemoryStatusEx env)) @ '' GB'' @
             [newline]
         else ''Error getting CPU/RAM usage.'' @ [newline]) @
        [newline] @ ''--- GPU Stats ---'' @ [newline] @
        (if g_gpuDataAvailable g' then
           ''GPU: '' @ name (g_gpuData g') @ [newline] @
           ''Temp: '' @ to_string_nat (unat (temperature (g_gpuData g'))) @ '' C'' @ [newline] @
           ''VRAM: '' @ fixed2 (memoryUsed (g_gpuData g')) @ '' GB / '' @
             fixed2 (memoryTotal (g_gpuData g')) @ '' GB'' @ [newline] @
           ''GPU Util: '' @ to_string_nat (unat (utilizationGpu (g_gpuData g'))) @ '' %''
         else ''GPU data not available or initializing...'')) \<and>
     length
       ((if 0 \<le> cpuUsage then
           ''CPU Usage: '' @ fixed2 cpuUsage @ ''%'' @ [newline] @
           ''RAM Usage: '' @ fixed2 (getCurrentRamUsage (GlobalMemoryStatusEx env)) @ '' GB'' @
             [newline]
         else ''Error getting CPU/RAM usage.'' @ [newline]) @
        [newline] @ ''--- GPU Stats ---'' @ [newline] @
        ''GPU data not available or initializing...'') \<le> 1023 \<and>
     two_decimals (fixed2 cpuUsage) \<and>
     two_decimals (fixed2 (getCurrentRamUsage (GlobalMemoryStatusEx env))) \<and>
     two_decimals (fixed2 (memoryUsed (g_gpuData g'))) \<and>
     two_decimals (fixed2 (memoryTotal (g_gpuData g'))) \<and>
     list_all isdigit (to_string_nat (unat (temperature (g_gpuData g')))) \<and>
     list_all isdigit (to_string_nat (unat (utilizationGpu (g_gpuData g'))))"
proof -
  let ?ram = "getCurrentRamUsage (GlobalMemoryStatusEx env)"
  obtain c g1 where c: "getCurrentCpuUsage (GetSystemTimes env) g = (Inr c, g1)"
    and r: "refreshAllData env g =
       Inr ((refreshGpu env g1)
         \<lparr> g_statsText := take 1023
             (cpu_ram_text c ?ram @
              gpu_text (g_gpuDataAvailable (refreshGpu env g1))
                (g_gpuData (refreshGpu env g1))) \<rparr>)"
    by (rule refreshAllData_result)
  define g' where "g' = (refreshGpu env g1)
         \<lparr> g_statsText := take 1023
             (cpu_ram_text c ?ram @
              gpu_text (g_gpuDataAvailable (refreshGpu env g1))
                (g_gpuData (refreshGpu env g1))) \<rparr>"
  have fc: "fst (getCurrentCpuUsage (GetSystemTimes env) g) = Inr c"
    using c by simp
  have c100: "c \<le> 100"
    by (rule getCurrentCpuUsage_le_100 [OF fc])
  have len: "length (cpu_ram_text c ?ram) \<le> 48"
    using c100 getCurrentRamUsage_bounds [of "GlobalMemoryStatusEx env"]
    by (intro cpu_ram_text_length) simp_all
  have shown: "g_statsText g' = take 1023
      (cpu_ram_text c ?ram @ gpu_text (g_gpuDataAvailable g') (g_gpuData g'))"
    by (simp add: g'_def del: take_append)
  have t1: "g_statsText g' = take 1023
       ((if 0 \<le> c then
           ''CPU Usage: '' @ fixed2 c @ ''%'' @ [newline] @
           ''RAM Usage: '' @ fixed2 ?ram @ '' GB'' @ [newline]
         else ''Error getting CPU/RAM usage.'' @ [newline]) @
        [newline] @ ''--- GPU Stats ---'' @ [newline] @
        (if g_gpuDataAvailable g' then
           ''GPU: '' @ name (g_gpuData g') @ [newline] @
           ''Temp: '' @ to_string_nat (unat (temperature (g_gpuData g'))) @ '' C'' @ [newline] @
           ''VRAM: '' @ fixed2 (memoryUsed (g_gpuData g')) @ '' GB / '' @
             fixed2 (memoryTotal (g_gpuData g')) @ '' GB'' @ [newline] @
           ''GPU Util: '' @ to_string_nat (unat (utilizationGpu (g_gpuData g'))) @ '' %''
         else ''GPU data not available or initializing...''))"
    unfolding shown
    by (simp add: cpu_ram_text_def gpu_text_def to_string_uint_def del: take_append)
  have t2: "length
       ((if 0 \<le> c then
           ''CPU Usage: '' @ fixed2 c @ ''%'' @ [newline] @
           ''RAM Usage: '' @ fixed2 ?ram @ '' GB'' @ [newline]
         else ''Error getting CPU/RAM usage.'' @ [newline]) @
        [newline] @ ''--- GPU Stats ---'' @ [newline] @
        ''GPU data not available or initializing...'') \<le> 1023"
    using len by (simp add: cpu_ram_text_def split: if_splits)
  show ?thesis
    using r [folded g'_def] fc t1 t2 fixed2_two_decimals to_string_nat_digits
    by (intro exI [of _ g'] exI [of _ c]) blast
qed

section \<open>Properties of the window procedure\<close>

lemma refreshGpu_firstCall: "firstCall (refreshGpu env g) = firstCall g"
  using refreshGpu_cases [of env g] by auto

lemma getCurrentCpuUsage_keeps_later:
  assumes "\<not> firstCall g"
  shows "\<not> firstCall (snd (getCurrentCpuUsage st g))"
proof (cases st)
  case None
  then show ?thesis
    using assms by (simp add: getCurrentCpuUsage_failed)
next
  case (Some t)
  then show ?thesis
    using assms by (simp add: getCurrentCpuUsage_later)
qed

lemma getCurrentCpuUsage_clears_firstCall:
  "\<not> firstCall (snd (getCurrentCpuUsage (Some t) g))"
  by (cases "firstCall g") (simp_all add: getCurrentCpuUsage_first getCurrentCpuUsage_later)

lemma refreshAllData_keeps_later:
  assumes "\<not> firstCall g" "refreshAllData env g = Inr g'"
  shows "\<not> firstCall g'"
proof -
  obtain c g1 where c: "getCurrentCpuUsage (GetSystemTimes env) g = (Inr c, g1)"
    and r: "refreshAllData env g =
       Inr ((refreshGpu env g1)
         \<lparr> g_statsText := take 1023
             (cpu_ram_text c (getCurrentRamUsage (GlobalMemoryStatusEx env)) @
              gpu_text (g_gpuDataAvailable (refreshGpu env g1))
                (g_gpuData (refreshGpu env g1))) \<rparr>)"
    by (rule refreshAllData_result)
  have "\<not> firstCall g1"
    using getCurrentCpuUsage_keeps_later [OF assms(1), of "GetSystemTimes env"] c by simp
  then show ?thesis
    using r assms(2) by (auto simp add: refreshGpu_firstCall)
qed

lemma refreshAllData_returns: "\<exists>g'. refreshAllData env g = Inr g'"
  by (rule refreshAllData_result [of env g]) blast

lemma WndProc_returns: "\<exists>g'. WndProc env msg g = Inr g'"
proof (cases msg)
  case WM_CREATE
  obtain r g1 where eq: "getCurrentCpuUsage (GetSystemTimes env) (g\<lparr> timerSet := True \<rparr>) = (r, g1)"
    by (cases "getCurrentCpuUsage (GetSystemTimes env) (g\<lparr> timerSet := True \<rparr>)")
  obtain v where "fst (getCurrentCpuUsage (GetSystemTimes env) (g\<lparr> timerSet := True \<rparr>)) = Inr v"
    using getCurrentCpuUsage_value by blast
  then show ?thesis
    using WM_CREATE eq by simp
next
  case (WM_TIMER wParam)
  then show ?thesis
    using refreshAllData_returns [of env g] by simp
qed (simp_all add: refreshAllData_returns)

lemma WndProc_keeps_later:
  assumes "\<not> firstCall g" "WndProc env msg g = Inr g'"
  shows "\<not> firstCall g'"
proof (cases msg)
  case WM_CREATE
  have "\<not> firstCall (snd (getCurrentCpuUsage (GetSystemTimes env) (g\<lparr> timerSet := True \<rparr>)))"
    using assms(1) by (intro getCurrentCpuUsage_keeps_later) simp
  then show ?thesis
    using assms(2) WM_CREATE by (auto split: prod.splits sum.splits)
next
  case WM_EXITSIZEMOVE
  then show ?thesis
    using assms refreshAllData_keeps_later [of "g\<lparr> timerSet := True \<rparr>" env g'] by simp
next
  case (WM_TIMER wParam)
  then show ?thesis
    using assms refreshAllData_keeps_later [of g env g'] by (auto split: if_splits)
qed (use assms in auto)

lemma WndProc_create_clears_firstCall:
  assumes "GetSystemTimes env = Some t" "WndProc env WM_CREATE g = Inr g'"
  shows "\<not> firstCall g'"
  using assms getCurrentCpuUsage_clears_firstCall [of t "g\<lparr> timerSet := True \<rparr>"]
  by (auto split: prod.splits sum.splits)

lemma dispatch_all_returns: "\<exists>g'. dispatch_all msgs g = Inr g'"
proof (induction msgs arbitrary: g)
  case Nil
  then show ?case by simp
next
  case (Cons m msgs)
  obtain env msg where m: "m = (env, msg)"
    by (cases m)
  obtain g1 where "WndProc env msg g = Inr g1"
    using WndProc_returns by blast
  then show ?case
    using Cons.IH [of g1] m by simp
qed

lemma dispatch_all_keeps_later:
  assumes "\<not> firstCall g" "dispatch_all msgs g = Inr g'"
  shows "\<not> firstCall g'"
  using assms
proof (induction msgs arbitrary: g)
  case Nil
  then show ?case by simp
next
  case (Cons m msgs)
  obtain env msg where m: "m = (env, msg)"
    by (cases m)
  obtain g1 where g1: "WndProc env msg g = Inr g1"
    using WndProc_returns by blast
  have "\<not> firstCall g1"
    by (rule WndProc_keeps_later [OF Cons.prems(1) g1])
  moreover have "dispatch_all msgs g1 = Inr g'"
    using Cons.prems(2) m g1 by simp
  ultimately show ?case
    by (rule Cons.IH)
qed

lemma WndProc_timer:
  "WndProc env (WM_TIMER CPU_USAGE_TIMER_ID) g = refreshAllData env g"
  by simp

text \<open>
  Claim C10, as stated: since \<^verbatim>\<open>WM_CREATE\<close> calls the CPU sampler once before any timer
  tick, the first-invocation result is never the CPU value that \<^verbatim>\<open>refreshAllData\<close> writes.
  It fails when the read of the system times in \<^verbatim>\<open>WM_CREATE\<close> fails: the sampler returns
  before it clears \<^verbatim>\<open>firstCall\<close>, and the first timer tick with a successful read takes the
  first-call branch and writes its 0 (the counters (50, 100, 0) against the zero baseline
  would give 50).
\<close>

theorem first_sample_displayed_counterexample:
  "GetSystemTimes (example_env None [] None) = None \<and>
   dispatch_all [(example_env None [] None, WM_CREATE)] initial_globals =
     Inr (initial_globals\<lparr> timerSet := True \<rparr>) \<and>
   firstCall (initial_globals\<lparr> timerSet := True \<rparr>) \<and>
   dispatch_all
     [(example_env None [] None, WM_CREATE),
      (example_env (Some (snapshot 50 100 0)) [] None, WM_TIMER CPU_USAGE_TIMER_ID)]
     initial_globals = Inr after_failed_create_and_tick \<and>
   g_statsText after_failed_create_and_tick =
     ''CPU Usage: 0.00%'' @ [newline] @ ''RAM Usage: 8.00 GB'' @ [newline] @
     [newline] @ ''--- GPU Stats ---'' @ [newline] @
     ''GPU data not available or initializing...''"
proof -
  have a: "WndProc (example_env None [] None) WM_CREATE initial_globals =
      Inr (initial_globals\<lparr> timerSet := True \<rparr>)"
    by (simp add: example_env_fields getCurrentCpuUsage_failed)
  have b: "getCurrentCpuUsage (Some (snapshot 50 100 0)) (initial_globals\<lparr> timerSet := True \<rparr>) =
      (Inr 0, initial_globals\<lparr> timerSet := True, previousIdleTime := 50,
         previousKernelTime := 100, previousUserTime := 0, firstCall := False \<rparr>)"
    by (simp add: getCurrentCpuUsage_def initial_globals_def snapshot_def FileTimeToInt64_def
        ticks_def)
  have c: "cpu_ram_text 0 8 =
      ''CPU Usage: 0.00%'' @ [newline] @ ''RAM Usage: 8.00 GB'' @ [newline]"
    by (simp add: cpu_ram_text_def format_eval)
  have d: "refreshAllData (example_env (Some (snapshot 50 100 0)) [] None)
      (initial_globals\<lparr> timerSet := True \<rparr>) = Inr after_failed_create_and_tick"
    by (simp add: refreshAllData_def example_env_fields b example_env_ram
        refreshGpu_empty_output c gpu_text_unavailable)
       (simp add: initial_globals_def after_failed_create_and_tick_def)
  have e: "firstCall (initial_globals\<lparr> timerSet := True \<rparr>)"
    by (simp add: initial_globals_def)
  have f: "g_statsText after_failed_create_and_tick =
     ''CPU Usage: 0.00%'' @ [newline] @ ''RAM Usage: 8.00 GB'' @ [newline] @
     [newline] @ ''--- GPU Stats ---'' @ [newline] @
     ''GPU data not available or initializing...''"
    by (simp add: after_failed_create_and_tick_def)
  show ?thesis
    using e f by (simp add: a d WndProc_timer example_env_fields del: WndProc.simps)
qed

text \<open>
  Claim C10, amended: when the read of the system times in the \<^verbatim>\<open>WM_CREATE\<close> handler
  succeeds, then after any sequence of messages that begins with \<^verbatim>\<open>WM_CREATE\<close> the window
  procedure has returned with \<^verbatim>\<open>firstCall\<close> false, so a CPU sample taken by a refresh
  dispatched at that point is computed from the deltas against the stored baseline and is
  not the first-invocation result.
\<close>

theorem first_sample_consumed_at_startup:
  assumes "GetSystemTimes env0 = Some t0"
  shows "\<exists>g. dispatch_all ((env0, WM_CREATE) # msgs) initial_globals = Inr g \<and>
     \<not> firstCall g \<and>
     fst (getCurrentCpuUsage (Some t) g) =
       (if kernelTimeDelta t g + userTimeDelta t g = 0 then Inr 0
        else Inr ((1 - double_of_ull (idleTimeDelta t g) /
                    double_of_ull (kernelTimeDelta t g + userTimeDelta t g)) * 100))"
proof -
  obtain g1 where g1: "WndProc env0 WM_CREATE initial_globals = Inr g1"
    using WndProc_returns by blast
  have f1: "\<not> firstCall g1"
    by (rule WndProc_create_clears_firstCall [OF assms g1])
  obtain g where g: "dispatch_all msgs g1 = Inr g"
    using dispatch_all_returns by blast
  have f: "\<not> firstCall g"
    by (rule dispatch_all_keeps_later [OF f1 g])
  have "dispatch_all ((env0, WM_CREATE) # msgs) initial_globals = Inr g"
    using g1 g by simp
  then show ?thesis
    using f by (intro exI [of _ g]) (simp add: getCurrentCpuUsage_later)
qed

theorem first_sample_consumed_at_startup_witness:
  "GetSystemTimes (example_env (Some (snapshot 100 200 50)) [] None) =
     Some (snapshot 100 200 50) \<and>
   dispatch_all
     [(example_env (Some (snapshot 100 200 50)) [] None, WM_CREATE),
      (example_env (Some (snapshot 130 260 50)) full_xml (Some full_doc),
       WM_TIMER CPU_USAGE_TIMER_ID)]
     initial_globals = Inr (after_good_cycle\<lparr> timerSet := True \<rparr>) \<and>
   \<not> firstCall (after_good_cycle\<lparr> timerSet := True \<rparr>) \<and>
   take 17 (g_statsText (after_good_cycle\<lparr> timerSet := True \<rparr>)) = ''CPU Usage: 50.00%''"
proof -
  have a: "GetSystemTimes (example_env (Some (snapshot 100 200 50)) [] None) =
     Some (snapshot 100 200 50)"
    by (rule example_env_fields)
  have b: "WndProc (example_env (Some (snapshot 100 200 50)) [] None) WM_CREATE initial_globals =
      Inr (after_first_call\<lparr> timerSet := True \<rparr>)"
    by (simp add: example_env_fields getCurrentCpuUsage_def initial_globals_def snapshot_def
        FileTimeToInt64_def ticks_def after_first_call_eq)
  have c: "getCurrentCpuUsage (Some (snapshot 130 260 50)) (after_first_call\<lparr> timerSet := True \<rparr>) =
     (Inr 50, after_first_call\<lparr> timerSet := True, previousIdleTime := 130,
        previousKernelTime := 260, previousUserTime := 50 \<rparr>)"
    by (simp add: cpu_eval getCurrentCpuUsage_def divide_double_def double_of_ull_def)
  have d: "refreshAllData (example_env (Some (snapshot 130 260 50)) full_xml (Some full_doc))
     (after_first_call\<lparr> timerSet := True \<rparr>) = Inr (after_good_cycle\<lparr> timerSet := True \<rparr>)"
    by (simp add: refreshAllData_def example_env_fields c example_env_ram
        refreshGpu_full_doc cpu_ram_text_example gpu_text_full_gpu_data)
       (simp add: after_first_call_eq after_good_cycle_def)
  have e: "dispatch_all
     [(example_env (Some (snapshot 100 200 50)) [] None, WM_CREATE),
      (example_env (Some (snapshot 130 260 50)) full_xml (Some full_doc),
       WM_TIMER CPU_USAGE_TIMER_ID)]
     initial_globals = Inr (after_good_cycle\<lparr> timerSet := True \<rparr>)"
    by (simp add: b d WndProc_timer del: WndProc.simps)
  have f: "take 17 (g_statsText (after_good_cycle\<lparr> timerSet := True \<rparr>)) = ''CPU Usage: 50.00%''"
    by (simp add: after_good_cycle_def)
  have "\<not> firstCall (after_good_cycle\<lparr> timerSet := True \<rparr>)"
    using first_sample_consumed_at_startup [OF a,
        of "[(example_env (Some (snapshot 130 260 50)) full_xml (Some full_doc),
             WM_TIMER CPU_USAGE_TIMER_ID)]"]
    unfolding e by blast
  then show ?thesis
    using a e f by blast
qed

end
